theory Spec2Isabelle
  imports Main "HOL-Library.AList" "HOL-Library.Sublist" "HOL-Library.Code_Target_Nat"
begin

section \<open>Python values, exceptions and collaborators\<close>

text \<open>
  A shallow embedding of \<^verbatim>\<open>electrum/payment_identifier.py\<close>. A Python \<^verbatim>\<open>str\<close> is a
  \<^typ>\<open>string\<close>, one character per list element; \<^verbatim>\<open>bytes\<close> are byte lists of the same
  type. A function that may raise returns \<open>pyexc + 'a\<close>, with \<open>Inl\<close> for the exception
  that leaves the function.
\<close>

type_synonym bytes = string

text \<open>
  A \<^verbatim>\<open>decimal.Decimal\<close>: a finite number is sign, coefficient and exponent
  (\<open>Dec True 15 (-1)\<close> is \<open>-1.5\<close>), or an infinity, or a NaN (quiet when the flag is
  \<open>False\<close>, signalling when it is \<open>True\<close>).
\<close>

datatype pydecimal = Dec bool nat int | DecInf bool | DecNaN bool

text \<open>
  An exception object: its class and its message. The message is kept as the literal
  text of the source, with \<open>{}\<close> where the source interpolates a value, and the
  interpolated value beside it (\<open>ReprStr s\<close> for \<^verbatim>\<open>repr(s)\<close>, \<open>ReprExc e\<close> for
  \<^verbatim>\<open>repr(e)\<close>, \<open>StrExc e\<close> for \<^verbatim>\<open>str(e)\<close>, \<open>ReprDecimal d\<close> for \<^verbatim>\<open>repr(d)\<close>).
  \<open>LibExc c\<close> is an exception of class \<open>c\<close> raised by the standard library or by a
  collaborator, whose message is not modelled.
\<close>

datatype pyexc = Exc string string interp | LibExc string
  and interp = NoArg | ReprStr string | ReprExc pyexc | StrExc pyexc | ReprDecimal pydecimal

fun exc_class :: "pyexc \<Rightarrow> string" where
  "exc_class (Exc c m a) = c"
| "exc_class (LibExc c) = c"

text \<open>A value stored in the dictionary that \<^verbatim>\<open>parse_bip21_URI\<close> returns.\<close>

datatype pyval = PyStr string | PyInt int

text \<open>\<^verbatim>\<open>PartialTxOutput(scriptpubkey=..., value=...)\<close>: the script (\<^verbatim>\<open>parse_output\<close> can
  return \<^verbatim>\<open>None\<close>) and the value, an integer or a spend-max string.\<close>

datatype PartialTxOutput = PartialTxOutput (scriptpubkey: "bytes option") (txo_value: pyval)

text \<open>\<^verbatim>\<open>class PayToLineError(NamedTuple)\<close>.\<close>

datatype PayToLineError =
  PayToLineError (line_content: string) (exc: pyexc) (idx: nat) (is_multiline: bool)

text \<open>What the field \<^verbatim>\<open>self.error\<close> holds: a string built from a literal text and the
  \<^verbatim>\<open>str\<close> of an exception, the string \<^verbatim>\<open>str(errors)\<close> of a list of line errors, or an
  exception object.\<close>

datatype error_value =
    ErrorText string interp
  | ErrorLines "PayToLineError list"
  | ErrorExc pyexc

text \<open>\<^verbatim>\<open>LNURL6Data\<close> of \<^verbatim>\<open>electrum/lnurl.py\<close>, the metadata round 1 fetches.\<close>

record LNURL6Data =
  callback_url :: string
  max_sendable_sat :: int
  min_sendable_sat :: int
  metadata_plaintext :: string
  comment_allowed :: int

text \<open>The decoded Lightning invoice \<^verbatim>\<open>lndecode\<close> returns: \<^verbatim>\<open>get_amount_sat()\<close> is a
  \<^verbatim>\<open>Decimal\<close> or \<^verbatim>\<open>None\<close>, \<^verbatim>\<open>get_fallback_address()\<close> a string or \<^verbatim>\<open>None\<close>.\<close>

record LnAddr =
  get_amount_sat :: "pydecimal option"
  get_fallback_address :: "string option"

text \<open>
  The collaborators the module calls and whose code is not part of it: the address
  codec (\<^verbatim>\<open>bitcoin.is_address\<close>, \<^verbatim>\<open>bitcoin.address_to_script\<close> composed with
  \<^verbatim>\<open>bytes.fromhex\<close>, \<^verbatim>\<open>bitcoin.base_decode(.., base=58).hex()\<close>), the invoice codec
  (\<^verbatim>\<open>lndecode\<close>, \<^verbatim>\<open>Invoice.from_bech32(..).get_amount_sat()\<close>), \<^verbatim>\<open>decode_lnurl\<close>, the
  network call \<^verbatim>\<open>callback_lnurl\<close> (its answer's \<^verbatim>\<open>.get('pr')\<close>), \<^verbatim>\<open>util.parse_max_spend\<close>
  on a string, \<^verbatim>\<open>config.get_decimal_point()\<close>, and the checks \<^verbatim>\<open>urllib.parse.urlsplit\<close>
  makes on a network location beyond the pairing of its brackets
  (\<^verbatim>\<open>_check_bracketed_host\<close>, \<^verbatim>\<open>_checknetloc\<close>). They are parameters of the model.
\<close>

record env =
  is_address :: "string \<Rightarrow> bool"
  address_to_script :: "string \<Rightarrow> pyexc + bytes"
  base_decode_hex :: "string \<Rightarrow> pyexc + string"
  lndecode :: "string \<Rightarrow> pyexc + LnAddr"
  decode_lnurl :: "string \<Rightarrow> pyexc + string"
  callback_lnurl :: "string \<Rightarrow> int \<Rightarrow> pyexc + string option"
  from_bech32_amount_sat :: "string option \<Rightarrow> pyexc + pyval option"
  parse_max_spend :: "string \<Rightarrow> int option"
  get_decimal_point :: int
  netloc_checks :: "string \<Rightarrow> bool"

text \<open>Python truthiness of an optional string and of an optional integer.\<close>

fun truthy_str :: "string option \<Rightarrow> bool" where
  "truthy_str None = False"
| "truthy_str (Some s) = (s \<noteq> [])"

fun truthy_int :: "int option \<Rightarrow> bool" where
  "truthy_int None = False"
| "truthy_int (Some n) = (n \<noteq> 0)"

section \<open>The payment identifier\<close>

text \<open>The fields \<^verbatim>\<open>PaymentIdentifier.__init__\<close> sets (\<^verbatim>\<open>_type\<close> is \<open>pi_type\<close>, \<^verbatim>\<open>text\<close> is
  \<open>pi_text\<close>).\<close>

record PaymentIdentifier =
  pi_text :: string
  pi_type :: "string option"
  error :: "error_value option"
  warning :: "string option"
  multiline_outputs :: "PartialTxOutput list option"
  bolt11 :: "string option"
  bip21 :: "(string \<times> pyval) list option"
  spk :: "bytes option"
  openalias :: "string option"
  openalias_data :: "(string \<times> pyval) list option"
  bip70 :: "pyval option"
  bip70_data :: "bytes option"
  lnurl :: "string option"
  lnurl_data :: "LNURL6Data option"

definition is_valid :: "PaymentIdentifier \<Rightarrow> bool" where
  "is_valid self = truthy_str (pi_type self)"

subsection \<open>Round 2\<close>

text \<open>
  What a call of the coroutine \<^verbatim>\<open>round_2\<close> does: the identifier it leaves, the
  exception that leaves it (\<^verbatim>\<open>log_exceptions\<close> logs and re-raises), the callback
  requests it sent (URL and the \<^verbatim>\<open>amount\<close> parameter), and whether it called
  \<^verbatim>\<open>on_success\<close>.
\<close>

record round_outcome =
  ro_self :: PaymentIdentifier
  ro_raised :: "pyexc option"
  ro_requests :: "(string \<times> int) list"
  ro_on_success :: bool

text \<open>The class sets no attribute \<^verbatim>\<open>_lnurl_data\<close> (the field is \<^verbatim>\<open>lnurl_data\<close>), so
  reading \<^verbatim>\<open>self._lnurl_data\<close> raises.\<close>

definition no_attribute :: "string \<Rightarrow> pyexc" where
  "no_attribute n = Exc ''AttributeError'' ''object has no attribute {}'' (ReprStr n)"

definition round_2 :: "env \<Rightarrow> PaymentIdentifier \<Rightarrow> int option \<Rightarrow> round_outcome" where
  "round_2 e self amount_sat =
    (if truthy_str (lnurl self) then
       (case lnurl_data self of
          None \<Rightarrow> \<lparr>ro_self = self, ro_raised = Some (no_attribute ''min_sendable_sat''),
                    ro_requests = [], ro_on_success = False\<rparr>
        | Some d \<Rightarrow>
          (case amount_sat of
             None \<Rightarrow> \<lparr>ro_self = self, ro_raised = Some (LibExc ''TypeError''),
                       ro_requests = [], ro_on_success = False\<rparr>
           | Some a \<Rightarrow>
             if \<not> (min_sendable_sat d \<le> a \<and> a \<le> max_sendable_sat d) then
               \<lparr>ro_self = self, ro_raised = Some (no_attribute ''_lnurl_data''),
                 ro_requests = [], ro_on_success = False\<rparr>
             else
               (case callback_lnurl e (callback_url d) (a * 1000) of
                  Inl x \<Rightarrow>
                    if exc_class x = ''LNURLError'' then
                      \<lparr>ro_self = self\<lparr>error :=
                           Some (ErrorText ''LNURL request encountered error: {}'' (StrExc x))\<rparr>,
                        ro_raised = None,
                        ro_requests = [(callback_url d, a * 1000)], ro_on_success = False\<rparr>
                    else
                      \<lparr>ro_self = self, ro_raised = Some x,
                        ro_requests = [(callback_url d, a * 1000)], ro_on_success = False\<rparr>
                | Inr bolt11_invoice \<Rightarrow>
                    (case from_bech32_amount_sat e bolt11_invoice of
                       Inl x \<Rightarrow>
                         \<lparr>ro_self = self, ro_raised = Some x,
                           ro_requests = [(callback_url d, a * 1000)], ro_on_success = False\<rparr>
                     | Inr invoice_amount \<Rightarrow>
                         if invoice_amount \<noteq> Some (PyInt a) then
                           \<lparr>ro_self = self,
                             ro_raised = Some (Exc ''Exception''
                               ''lnurl returned invoice with wrong amount'' NoArg),
                             ro_requests = [(callback_url d, a * 1000)], ro_on_success = False\<rparr>
                         else
                           \<lparr>ro_self = self\<lparr>bolt11 := bolt11_invoice\<rparr>, ro_raised = None,
                             ro_requests = [(callback_url d, a * 1000)],
                             ro_on_success = True\<rparr>))))
     else
       \<lparr>ro_self = self, ro_raised = None, ro_requests = [], ro_on_success = True\<rparr>)"

section \<open>The Python library\<close>

subsection \<open>Strings\<close>

text \<open>
  A Python \<^verbatim>\<open>str\<close> is the list of the bytes of its UTF-8 encoding: an ASCII character is
  one \<^typ>\<open>char\<close> below 128, any other character is the two to four bytes above 127 that
  encode it (U+00A0, the no-break space, is the two bytes \<open>C2 A0\<close>).

  The characters of which \<^verbatim>\<open>str.isspace\<close> holds, which \<^verbatim>\<open>strip\<close> removes and at which
  \<^verbatim>\<open>split()\<close> splits, are the ASCII ones (tab, line feed, vertical tab, form feed,
  carriage return, the separators \<open>0x1C\<close> to \<open>0x1F\<close>, space) and U+0085, U+00A0, U+1680,
  U+2000 to U+200A, U+2028, U+2029, U+202F, U+205F and U+3000. \<open>whitespace\<close> lists them,
  each as its encoding. No encoding of a character is the beginning or the end of the
  encoding of another one, so a text begins (ends) with a whitespace character exactly
  when one of these byte sequences is a prefix (suffix) of it.

  The letters and digits of \<^verbatim>\<open>lower\<close>, of the regular expressions and of the syntax of
  numbers are the ASCII ones; \<^verbatim>\<open>lower\<close> leaves every other byte as it is.
\<close>

definition whitespace :: "string list" where
  "whitespace =
     [[CHR 0x09], [CHR 0x0A], [CHR 0x0B], [CHR 0x0C], [CHR 0x0D],
      [CHR 0x1C], [CHR 0x1D], [CHR 0x1E], [CHR 0x1F], [CHR 0x20],
      [CHR 0xC2, CHR 0x85], [CHR 0xC2, CHR 0xA0], [CHR 0xE1, CHR 0x9A, CHR 0x80],
      [CHR 0xE2, CHR 0x80, CHR 0x80], [CHR 0xE2, CHR 0x80, CHR 0x81],
      [CHR 0xE2, CHR 0x80, CHR 0x82], [CHR 0xE2, CHR 0x80, CHR 0x83],
      [CHR 0xE2, CHR 0x80, CHR 0x84], [CHR 0xE2, CHR 0x80, CHR 0x85],
      [CHR 0xE2, CHR 0x80, CHR 0x86], [CHR 0xE2, CHR 0x80, CHR 0x87],
      [CHR 0xE2, CHR 0x80, CHR 0x88], [CHR 0xE2, CHR 0x80, CHR 0x89],
      [CHR 0xE2, CHR 0x80, CHR 0x8A], [CHR 0xE2, CHR 0x80, CHR 0xA8],
      [CHR 0xE2, CHR 0x80, CHR 0xA9], [CHR 0xE2, CHR 0x80, CHR 0xAF],
      [CHR 0xE2, CHR 0x81, CHR 0x9F], [CHR 0xE3, CHR 0x80, CHR 0x80]]"

text \<open>The number of bytes of the first of the sequences \<open>ws\<close> that the text begins with,
  0 when it begins with none.\<close>

definition space_len :: "string list \<Rightarrow> string \<Rightarrow> nat" where
  "space_len ws s = (case find (\<lambda>w. prefix w s) ws of None \<Rightarrow> 0 | Some w \<Rightarrow> length w)"

fun strip_left :: "string list \<Rightarrow> string \<Rightarrow> string" where
  "strip_left ws [] = []"
| "strip_left ws (c # r) =
     (case space_len ws (c # r) of 0 \<Rightarrow> c # r | Suc k \<Rightarrow> strip_left ws (drop k r))"

definition is_digit :: "char \<Rightarrow> bool" where
  "is_digit c = (c \<in> set ''0123456789'')"

definition is_upper :: "char \<Rightarrow> bool" where
  "is_upper c = (c \<in> set ''ABCDEFGHIJKLMNOPQRSTUVWXYZ'')"

definition is_lower :: "char \<Rightarrow> bool" where
  "is_lower c = (c \<in> set ''abcdefghijklmnopqrstuvwxyz'')"

definition is_alpha :: "char \<Rightarrow> bool" where
  "is_alpha c = (is_upper c \<or> is_lower c)"

definition is_alnum :: "char \<Rightarrow> bool" where
  "is_alnum c = (is_alpha c \<or> is_digit c)"

definition is_hexdigit :: "char \<Rightarrow> bool" where
  "is_hexdigit c = (c \<in> set ''0123456789abcdefABCDEF'')"

definition lower_char :: "char \<Rightarrow> char" where
  "lower_char c =
     (case map_of (zip ''ABCDEFGHIJKLMNOPQRSTUVWXYZ'' ''abcdefghijklmnopqrstuvwxyz'') c of
        None \<Rightarrow> c | Some d \<Rightarrow> d)"

definition lower :: "string \<Rightarrow> string" where
  "lower s = map lower_char s"

definition lstrip :: "string \<Rightarrow> string" where
  "lstrip s = strip_left whitespace s"

definition rstrip :: "string \<Rightarrow> string" where
  "rstrip s = rev (strip_left (map rev whitespace) (rev s))"

definition strip :: "string \<Rightarrow> string" where
  "strip s = rstrip (lstrip s)"

definition startswith :: "string \<Rightarrow> string \<Rightarrow> bool" where
  "startswith s p = prefix p s"

fun split_on :: "char \<Rightarrow> string \<Rightarrow> string list" where
  "split_on sep [] = [[]]"
| "split_on sep (c # cs) =
     (if c = sep then [] # split_on sep cs
      else (case split_on sep cs of [] \<Rightarrow> [[c]] | w # ws \<Rightarrow> (c # w) # ws))"

fun split_ws :: "string \<Rightarrow> string list" where
  "split_ws [] = []"
| "split_ws (c # cs) =
     (case space_len whitespace (c # cs) of
        Suc k \<Rightarrow> split_ws (drop k cs)
      | 0 \<Rightarrow>
          (case cs of
             [] \<Rightarrow> [[c]]
           | d # ds \<Rightarrow> if space_len whitespace cs > 0 then [c] # split_ws cs
                      else (case split_ws cs of [] \<Rightarrow> [[c]] | w # ws \<Rightarrow> (c # w) # ws)))"

subsection \<open>Integers and decimals\<close>

text \<open>
  \<^verbatim>\<open>int(s)\<close> of a string (surrounding whitespace, a sign, digits with single
  underscores between them), \<^verbatim>\<open>Decimal(s)\<close> (whitespace stripped, underscores removed,
  then a sign and a number with optional fraction and exponent, an infinity or a NaN),
  and the arithmetic of the default context: precision 28, rounding half-even,
  \<open>Emax = 999999\<close>, \<open>Emin = -999999\<close>, with \<^verbatim>\<open>InvalidOperation\<close> and \<^verbatim>\<open>Overflow\<close>
  trapped. \<open>dec_fix\<close> is the context's rounding of a finite result
  (\<^verbatim>\<open>Decimal._fix\<close>), \<open>dec_gt_int\<close> the comparison \<^verbatim>\<open>d > n\<close> and \<open>dec_to_int\<close> is
  \<^verbatim>\<open>int(d)\<close>, which truncates towards zero.
\<close>

definition remove_char :: "char \<Rightarrow> string \<Rightarrow> string" where
  "remove_char c s = filter (\<lambda>x. x \<noteq> c) s"

definition digit_val :: "char \<Rightarrow> nat" where
  "digit_val c =
     (case map_of (zip ''0123456789'' [0, 1, 2, 3, 4, 5, 6, 7, 8, 9]) c of
        None \<Rightarrow> 0 | Some d \<Rightarrow> d)"

definition nat_of_digits :: "string \<Rightarrow> nat" where
  "nat_of_digits s = foldl (\<lambda>a c. 10 * a + digit_val c) 0 s"

definition split_sign :: "string \<Rightarrow> bool \<times> string" where
  "split_sign s =
     (case s of
        [] \<Rightarrow> (False, s)
      | c # r \<Rightarrow> if c = CHR ''-'' then (True, r) else if c = CHR ''+'' then (False, r)
                 else (False, s))"

definition signed :: "bool \<Rightarrow> nat \<Rightarrow> int" where
  "signed neg n = (if neg then - int n else int n)"

fun int_body_ok :: "string \<Rightarrow> bool" where
  "int_body_ok [] = False"
| "int_body_ok [c] = is_digit c"
| "int_body_ok (c # d # cs) =
     (is_digit c \<and> (if d = CHR ''_'' then int_body_ok cs else int_body_ok (d # cs)))"

definition py_int :: "string \<Rightarrow> pyexc + int" where
  "py_int s =
     (case split_sign (strip s) of
        (neg, body) \<Rightarrow>
          if int_body_ok body then Inr (signed neg (nat_of_digits (remove_char CHR ''_'' body)))
          else Inl (Exc ''ValueError'' ''invalid literal for int() with base 10: {}'' (ReprStr s)))"

definition dec_number :: "string \<Rightarrow> (nat \<times> int) option" where
  "dec_number s =
     (let ip = takeWhile is_digit s; r1 = dropWhile is_digit s;
          fp = (case r1 of [] \<Rightarrow> [] | c # r \<Rightarrow> if c = CHR ''.'' then takeWhile is_digit r else []);
          r2 = (case r1 of [] \<Rightarrow> [] | c # r \<Rightarrow> if c = CHR ''.'' then dropWhile is_digit r else r1)
      in if ip = [] \<and> fp = [] then None
         else (case r2 of
                 [] \<Rightarrow> Some (nat_of_digits (ip @ fp), - int (length fp))
               | c # r3 \<Rightarrow>
                   if c = CHR ''e'' \<or> c = CHR ''E'' then
                     (case split_sign r3 of
                        (eneg, ed) \<Rightarrow>
                          if ed \<noteq> [] \<and> list_all is_digit ed then
                            Some (nat_of_digits (ip @ fp),
                                  signed eneg (nat_of_digits ed) - int (length fp))
                          else None)
                   else None))"

definition py_Decimal :: "string \<Rightarrow> pyexc + pydecimal" where
  "py_Decimal s =
     (case split_sign (remove_char CHR ''_'' (strip s)) of
        (neg, t) \<Rightarrow>
          if lower t = ''inf'' \<or> lower t = ''infinity'' then Inr (DecInf neg)
          else if prefix ''nan'' (lower t) \<and> list_all is_digit (drop 3 t) then Inr (DecNaN False)
          else if prefix ''snan'' (lower t) \<and> list_all is_digit (drop 4 t) then Inr (DecNaN True)
          else (case dec_number t of
                  None \<Rightarrow> Inl (LibExc ''InvalidOperation'')
                | Some (c, e) \<Rightarrow> Inr (Dec neg c e)))"

fun ndigits :: "nat \<Rightarrow> nat" where
  "ndigits n = (if n < 10 then 1 else Suc (ndigits (n div 10)))"

definition round_half_even :: "nat \<Rightarrow> nat \<Rightarrow> nat" where
  "round_half_even k c =
     (let q = c div 10 ^ k; r = c mod 10 ^ k
      in if 2 * r > 10 ^ k \<or> (2 * r = 10 ^ k \<and> odd q) then q + 1 else q)"

definition dec_prec :: nat where "dec_prec = 28"
definition dec_Emax :: int where "dec_Emax = 999999"
definition dec_Etiny :: int where "dec_Etiny = - 999999 - (int dec_prec - 1)"
definition dec_Etop :: int where "dec_Etop = dec_Emax - (int dec_prec - 1)"

definition dec_fix :: "bool \<Rightarrow> nat \<Rightarrow> int \<Rightarrow> pyexc + pydecimal" where
  "dec_fix neg c e =
     (if c = 0 then Inr (Dec neg 0 (min (max e dec_Etiny) dec_Emax))
      else
        (let exp_min0 = int (ndigits c) + e - int dec_prec
         in if exp_min0 > dec_Etop then Inl (LibExc ''Overflow'')
            else
              (let exp_min = max exp_min0 dec_Etiny
               in if e < exp_min then
                    (let coeff = round_half_even (nat (exp_min - e)) c
                     in if ndigits coeff > dec_prec then
                          (if exp_min + 1 > dec_Etop then Inl (LibExc ''Overflow'')
                           else Inr (Dec neg (coeff div 10) (exp_min + 1)))
                        else Inr (Dec neg coeff exp_min))
                  else Inr (Dec neg c e))))"

fun dec_mul :: "pydecimal \<Rightarrow> pydecimal \<Rightarrow> pyexc + pydecimal" where
  "dec_mul (DecNaN s) b =
     (if s \<or> b = DecNaN True then Inl (LibExc ''InvalidOperation'') else Inr (DecNaN False))"
| "dec_mul a (DecNaN s) =
     (if s then Inl (LibExc ''InvalidOperation'') else Inr (DecNaN False))"
| "dec_mul (DecInf s) (DecInf t) = Inr (DecInf (s \<noteq> t))"
| "dec_mul (DecInf s) (Dec t c e) =
     (if c = 0 then Inl (LibExc ''InvalidOperation'') else Inr (DecInf (s \<noteq> t)))"
| "dec_mul (Dec t c e) (DecInf s) =
     (if c = 0 then Inl (LibExc ''InvalidOperation'') else Inr (DecInf (s \<noteq> t)))"
| "dec_mul (Dec s c e) (Dec t d f) = dec_fix (s \<noteq> t) (c * d) (e + f)"

fun dec_gt_int :: "pydecimal \<Rightarrow> int \<Rightarrow> pyexc + bool" where
  "dec_gt_int (DecNaN s) n = Inl (LibExc ''InvalidOperation'')"
| "dec_gt_int (DecInf neg) n = Inr (\<not> neg)"
| "dec_gt_int (Dec neg c e) n =
     (if 0 \<le> e then Inr (signed neg c * 10 ^ nat e > n)
      else Inr (signed neg c > n * 10 ^ nat (- e)))"

fun dec_to_int :: "pydecimal \<Rightarrow> pyexc + int" where
  "dec_to_int (DecNaN s) = Inl (LibExc ''ValueError'')"
| "dec_to_int (DecInf neg) = Inl (LibExc ''OverflowError'')"
| "dec_to_int (Dec neg c e) =
     (if 0 \<le> e then Inr (signed neg (c * 10 ^ nat e))
      else Inr (signed neg (c div 10 ^ nat (- e))))"

definition dec_of_int :: "int \<Rightarrow> pydecimal" where
  "dec_of_int n = Dec (n < 0) (nat \<bar>n\<bar>) 0"

subsection \<open>URLs\<close>

text \<open>
  \<^verbatim>\<open>urllib.parse\<close>, as CPython 3.11 and later define it. \<^verbatim>\<open>quote\<close> keeps letters, digits
  and \<open>_.-~/\<close> and writes every other byte as \<open>%XX\<close>; \<^verbatim>\<open>unquote\<close> turns \<open>%XX\<close> back into
  a byte and keeps a \<open>%\<close> that two hexadecimal digits do not follow (the replacement of
  byte sequences that are not UTF-8 is not modelled). \<^verbatim>\<open>urlsplit\<close> strips leading
  control characters and spaces, removes tab, carriage return and line feed, splits off
  a scheme (letters, digits and \<open>+-.\<close> before the first colon, starting with a letter),
  a network location after \<open>//\<close>, then the fragment after \<open>#\<close> and the query after
  \<open>?\<close>; it raises \<^verbatim>\<open>ValueError\<close> on a network location with an unpaired bracket.
  \<^verbatim>\<open>urlparse\<close> splits the path's parameters off only for the schemes that have them,
  and \<open>bitcoin\<close> is not one of them, so its result is that of \<^verbatim>\<open>urlsplit\<close>.
  \<^verbatim>\<open>parse_qs\<close> splits the query at \<open>&\<close>, drops a field that is empty, has no \<open>=\<close> or
  has a blank value, decodes \<open>+\<close> and \<open>%XX\<close> in names and values, and collects the values
  of each name in a list, names in the order of their first occurrence.
\<close>

definition hexval :: "char \<Rightarrow> nat" where
  "hexval c =
     (case map_of (zip ''0123456789abcdefABCDEF''
         [0, 1, 2, 3, 4, 5, 6, 7, 8, 9, 10, 11, 12, 13, 14, 15, 10, 11, 12, 13, 14, 15]) c of
        None \<Rightarrow> 0 | Some d \<Rightarrow> d)"

definition hexdigit :: "nat \<Rightarrow> char" where
  "hexdigit k = ''0123456789ABCDEF'' ! k"

definition always_safe :: "char \<Rightarrow> bool" where
  "always_safe c = (is_alnum c \<or> c \<in> set ''_.-~'')"

definition quote :: "string \<Rightarrow> string" where
  "quote s =
     concat (map (\<lambda>c. if always_safe c \<or> c = CHR ''/'' then [c]
                        else [CHR ''%'', hexdigit (of_char c div 16), hexdigit (of_char c mod 16)]) s)"

fun unquote_to_bytes :: "string \<Rightarrow> string" where
  "unquote_to_bytes (c # a # b # r) =
     (if c = CHR ''%'' \<and> is_hexdigit a \<and> is_hexdigit b
      then char_of (16 * hexval a + hexval b) # unquote_to_bytes r
      else c # unquote_to_bytes (a # b # r))"
| "unquote_to_bytes s = s"


definition unquote :: "string \<Rightarrow> string" where
  "unquote s = unquote_to_bytes s"

definition partition_at :: "char \<Rightarrow> string \<Rightarrow> string \<times> string option" where
  "partition_at c s =
     (takeWhile (\<lambda>x. x \<noteq> c) s,
      case dropWhile (\<lambda>x. x \<noteq> c) s of [] \<Rightarrow> None | d # r \<Rightarrow> Some r)"

record SplitResult =
  scheme :: string
  netloc :: string
  path :: string
  query :: string
  fragment :: string

definition is_c0_control_or_space :: "char \<Rightarrow> bool" where
  "is_c0_control_or_space c = (of_char c \<le> (32::nat))"

definition scheme_char :: "char \<Rightarrow> bool" where
  "scheme_char c = (is_alnum c \<or> c \<in> set ''+-.'')"

definition urlsplit :: "env \<Rightarrow> string \<Rightarrow> pyexc + SplitResult" where
  "urlsplit e url =
     (let url1 = filter (\<lambda>c. c \<notin> set [CHR 0x09, CHR 0x0D, CHR 0x0A])
                   (dropWhile is_c0_control_or_space url);
          sch = takeWhile (\<lambda>c. c \<noteq> CHR '':'') url1;
          has_scheme = (CHR '':'' \<in> set url1 \<and> sch \<noteq> [] \<and> is_alpha (hd sch)
                        \<and> list_all scheme_char sch);
          url2 = (if has_scheme then drop (length sch + 1) url1 else url1);
          has_netloc = (take 2 url2 = ''//'');
          nl = (if has_netloc then takeWhile (\<lambda>c. c \<notin> set ''/?#'') (drop 2 url2) else []);
          url3 = (if has_netloc then dropWhile (\<lambda>c. c \<notin> set ''/?#'') (drop 2 url2) else url2)
      in if has_netloc \<and> ((CHR ''['' \<in> set nl) \<noteq> (CHR '']'' \<in> set nl) \<or> \<not> netloc_checks e nl)
         then Inl (LibExc ''ValueError'')
         else
           (case partition_at CHR ''#'' url3 of
              (url4, frag) \<Rightarrow>
                (case partition_at CHR ''?'' url4 of
                   (url5, qu) \<Rightarrow>
                     Inr \<lparr>scheme = (if has_scheme then lower sch else []), netloc = nl,
                          path = url5, query = (case qu of None \<Rightarrow> [] | Some q \<Rightarrow> q),
                          fragment = (case frag of None \<Rightarrow> [] | Some f \<Rightarrow> f)\<rparr>)))"

definition parse_qsl :: "string \<Rightarrow> (string \<times> string) list" where
  "parse_qsl qs =
     concat (map (\<lambda>name_value.
        case partition_at CHR ''='' name_value of
          (n, None) \<Rightarrow> []
        | (n, Some v) \<Rightarrow>
            if v = [] then []
            else [(unquote (map (\<lambda>c. if c = CHR ''+'' then CHR '' '' else c) n),
                   unquote (map (\<lambda>c. if c = CHR ''+'' then CHR '' '' else c) v))])
       (split_on CHR ''&'' qs))"

fun parse_qs_add :: "(string \<times> string list) list \<Rightarrow> string \<times> string \<Rightarrow> (string \<times> string list) list" where
  "parse_qs_add [] (name, v) = [(name, [v])]"
| "parse_qs_add ((k, vs) # r) (name, v) =
     (if k = name then (k, vs @ [v]) # r else (k, vs) # parse_qs_add r (name, v))"

definition parse_qs :: "string \<Rightarrow> (string \<times> string list) list" where
  "parse_qs qs = foldl parse_qs_add [] (parse_qsl qs)"

definition urlparse :: "env \<Rightarrow> string \<Rightarrow> pyexc + SplitResult" where
  "urlparse e url = urlsplit e url"

text \<open>\<^verbatim>\<open>urlunparse\<close> of a result whose network location, parameters and fragment are
  empty and whose scheme is \<open>bitcoin\<close>, as \<^verbatim>\<open>create_bip21_uri\<close> builds it.\<close>

definition urlunparse :: "string \<Rightarrow> string \<Rightarrow> string \<Rightarrow> string" where
  "urlunparse sch pth qu =
     (if sch = [] then [] else sch @ '':'') @ pth @ (if qu = [] then [] else ''?'' @ qu)"

section \<open>The module\<close>

subsection \<open>Constants and helpers\<close>

text \<open>
  Modelled from the spec: the constants \<^verbatim>\<open>COIN\<close> and \<^verbatim>\<open>TOTAL_COIN_SUPPLY_LIMIT_IN_BTC\<close> that the
  module imports from \<^verbatim>\<open>electrum/bitcoin.py\<close>, which is not among the sources. The spec's
  exponent digit 8 is the scale of a whole unit, \<open>10 ^ 8\<close> minor units; the cap is the
  network's total supply, 21 million whole units.
\<close>

definition COIN :: int where
  "COIN = 100000000"

definition TOTAL_COIN_SUPPLY_LIMIT_IN_BTC :: int where
  "TOTAL_COIN_SUPPLY_LIMIT_IN_BTC = 21000000"

definition BITCOIN_BIP21_URI_SCHEME :: string where
  "BITCOIN_BIP21_URI_SCHEME = ''bitcoin''"

definition LIGHTNING_URI_SCHEME :: string where
  "LIGHTNING_URI_SCHEME = ''lightning''"

definition InvalidBitcoinURI :: "string \<Rightarrow> interp \<Rightarrow> pyexc" where
  "InvalidBitcoinURI m a = Exc ''InvalidBitcoinURI'' m a"

text \<open>The module imports neither \<^verbatim>\<open>_\<close> nor \<^verbatim>\<open>opcodes\<close>, \<^verbatim>\<open>construct_script\<close> or \<^verbatim>\<open>decimal\<close>
  (it has \<^verbatim>\<open>from decimal import Decimal\<close> only) and never assigns them: evaluating one of
  these names raises \<^verbatim>\<open>NameError\<close>.\<close>

definition unbound_name :: "string \<Rightarrow> pyexc" where
  "unbound_name n = Exc ''NameError'' ''name {} is not defined'' (ReprStr n)"

definition bind_exc :: "pyexc + 'a \<Rightarrow> ('a \<Rightarrow> pyexc + 'b) \<Rightarrow> pyexc + 'b" where
  "bind_exc r f = (case r of Inl x \<Rightarrow> Inl x | Inr v \<Rightarrow> f v)"

text \<open>Python truthiness of a dictionary value that may be absent.\<close>

fun truthy :: "pyval option \<Rightarrow> bool" where
  "truthy None = False"
| "truthy (Some (PyStr s)) = (s \<noteq> [])"
| "truthy (Some (PyInt n)) = (n \<noteq> 0)"

subsection \<open>\<^verbatim>\<open>parse_bip21_URI\<close>\<close>

text \<open>\<^verbatim>\<open>re.match(r'([0-9.]+)X([0-9])', am)\<close>: the longest run of digits and points at the
  start, not empty, then \<open>X\<close> and one digit; the groups 1 and 2.\<close>

definition match_amount_X :: "string \<Rightarrow> (string \<times> char) option" where
  "match_amount_X am =
     (let g1 = takeWhile (\<lambda>c. is_digit c \<or> c = CHR ''.'') am
      in case dropWhile (\<lambda>c. is_digit c \<or> c = CHR ''.'') am of
           x # d # r \<Rightarrow> if g1 \<noteq> [] \<and> x = CHR ''X'' \<and> is_digit d then Some (g1, d) else None
         | _ \<Rightarrow> None)"

text \<open>\<^verbatim>\<open>pow(Decimal(10), k)\<close> for an integer \<open>k\<close>.\<close>

definition pow_Decimal_10 :: "int \<Rightarrow> pydecimal" where
  "pow_Decimal_10 k = (if 0 \<le> k then Dec False (10 ^ nat k) 0 else Dec False 1 k)"

text \<open>The body of the \<^verbatim>\<open>try\<close> that decodes the \<open>amount\<close> field (lines 76 to 84).\<close>

definition bip21_amount :: "string \<Rightarrow> pyexc + int" where
  "bip21_amount am =
     bind_exc
       (case match_amount_X am of
          Some (g1, d) \<Rightarrow>
            bind_exc (py_Decimal g1) (\<lambda>m. dec_mul m (pow_Decimal_10 (int (digit_val d) - 8)))
        | None \<Rightarrow> bind_exc (py_Decimal am) (\<lambda>m. dec_mul m (dec_of_int COIN)))
       (\<lambda>amount.
          bind_exc (dec_gt_int amount (TOTAL_COIN_SUPPLY_LIMIT_IN_BTC * COIN))
            (\<lambda>too_big.
               if too_big then
                 Inl (InvalidBitcoinURI ''amount is out-of-bounds: {} BTC'' (ReprDecimal amount))
               else dec_to_int amount))"

text \<open>The first key of \<^verbatim>\<open>pq.items()\<close> whose list of values has not exactly one element.\<close>

fun first_duplicate :: "(string \<times> string list) list \<Rightarrow> string option" where
  "first_duplicate [] = None"
| "first_duplicate ((k, v) # r) = (if length v \<noteq> 1 then Some k else first_duplicate r)"

text \<open>The address and the parsed query (lines 55 to 62). \<^verbatim>\<open>address.find('?') > 0\<close> holds
  when a \<open>?\<close> occurs in the path and not as its first character; the unpacking of
  \<^verbatim>\<open>u.path.split('?')\<close> then needs exactly two parts.\<close>

definition bip21_address_and_query :: "SplitResult \<Rightarrow> pyexc + string \<times> (string \<times> string list) list" where
  "bip21_address_and_query u =
     (if CHR ''?'' \<in> set (path u) \<and> takeWhile (\<lambda>c. c \<noteq> CHR ''?'') (path u) \<noteq> [] then
        (case split_on CHR ''?'' (path u) of
           [address, qu] \<Rightarrow> Inr (address, parse_qs qu)
         | _ \<Rightarrow> Inl (LibExc ''ValueError''))
      else Inr (path u, parse_qs (query u)))"

definition bip21_set_address :: "env \<Rightarrow> string \<Rightarrow> (string \<times> pyval) list \<Rightarrow> pyexc + (string \<times> pyval) list" where
  "bip21_set_address e address out =
     (if address \<noteq> [] then
        (if \<not> is_address e address then
           Inl (InvalidBitcoinURI (''Invalid bitcoin address: '' @ address) NoArg)
         else Inr (AList.update ''address'' (PyStr address) out))
      else Inr out)"

definition bip21_set_amount :: "(string \<times> pyval) list \<Rightarrow> pyexc + (string \<times> pyval) list" where
  "bip21_set_amount out =
     (case map_of out ''amount'' of
        None \<Rightarrow> Inr out
      | Some v \<Rightarrow>
          (case (case v of PyStr am \<Rightarrow> bip21_amount am | PyInt n \<Rightarrow> Inl (LibExc ''TypeError'')) of
             Inl x \<Rightarrow> Inl (InvalidBitcoinURI ''failed to parse 'amount' field: {}'' (ReprExc x))
           | Inr amount \<Rightarrow> Inr (AList.update ''amount'' (PyInt amount) out)))"

definition bip21_set_memo :: "(string \<times> pyval) list \<Rightarrow> (string \<times> pyval) list" where
  "bip21_set_memo out =
     (case map_of out ''message'' of
        None \<Rightarrow> out
      | Some m \<Rightarrow> AList.update ''memo'' m (AList.update ''message'' m out))"

text \<open>\<^verbatim>\<open>out[key] = int(out[key])\<close> under \<^verbatim>\<open>try\<close>, for the keys \<open>time\<close> and \<open>exp\<close>.\<close>

definition bip21_set_int :: "string \<Rightarrow> string \<Rightarrow> (string \<times> pyval) list \<Rightarrow> pyexc + (string \<times> pyval) list" where
  "bip21_set_int key msg out =
     (case map_of out key of
        None \<Rightarrow> Inr out
      | Some v \<Rightarrow>
          (case (case v of PyStr s \<Rightarrow> py_int s | PyInt n \<Rightarrow> Inr n) of
             Inl x \<Rightarrow> Inl (InvalidBitcoinURI msg (ReprExc x))
           | Inr n \<Rightarrow> Inr (AList.update key (PyInt n) out)))"

definition bip21_set_sig :: "env \<Rightarrow> (string \<times> pyval) list \<Rightarrow> pyexc + (string \<times> pyval) list" where
  "bip21_set_sig e out =
     (case map_of out ''sig'' of
        None \<Rightarrow> Inr out
      | Some v \<Rightarrow>
          (case (case v of PyStr s \<Rightarrow> base_decode_hex e s | PyInt n \<Rightarrow> Inl (LibExc ''TypeError'')) of
             Inl x \<Rightarrow> Inl (InvalidBitcoinURI ''failed to parse 'sig' field: {}'' (ReprExc x))
           | Inr h \<Rightarrow> Inr (AList.update ''sig'' (PyStr h) out)))"

text \<open>\<^verbatim>\<open>int(lnaddr.get_amount_sat())\<close>: \<^verbatim>\<open>int(None)\<close> raises \<^verbatim>\<open>TypeError\<close>.\<close>

definition int_of_amount_sat :: "pydecimal option \<Rightarrow> pyexc + int" where
  "int_of_amount_sat a = (case a of None \<Rightarrow> Inl (LibExc ''TypeError'') | Some d \<Rightarrow> dec_to_int d)"

text \<open>The block \<^verbatim>\<open>if 'lightning' in out\<close> (lines 105 to 119). Only \<^verbatim>\<open>LnDecodeException\<close> is
  caught; the amounts are compared only when \<^verbatim>\<open>out.get('amount')\<close> is truthy, the
  addresses only when both are.\<close>

definition bip21_check_lightning :: "env \<Rightarrow> (string \<times> pyval) list \<Rightarrow> pyexc + (string \<times> pyval) list" where
  "bip21_check_lightning e out =
     (case map_of out ''lightning'' of
        None \<Rightarrow> Inr out
      | Some v \<Rightarrow>
          (case (case v of PyStr s \<Rightarrow> lndecode e s | PyInt n \<Rightarrow> Inl (LibExc ''TypeError'')) of
             Inl x \<Rightarrow>
               if exc_class x = ''LnDecodeException'' then
                 Inl (InvalidBitcoinURI ''Failed to decode 'lightning' field: {}'' (ReprExc x))
               else Inl x
           | Inr lnaddr \<Rightarrow>
               bind_exc
                 (if truthy (map_of out ''amount'') then
                    bind_exc (int_of_amount_sat (get_amount_sat lnaddr))
                      (\<lambda>ln_amount.
                         case map_of out ''amount'' of
                           Some (PyInt amount_sat) \<Rightarrow>
                             if \<bar>amount_sat - ln_amount\<bar> > 1 then
                               Inl (InvalidBitcoinURI
                                      ''Inconsistent lightning field in bip21: amount'' NoArg)
                             else Inr ()
                         | _ \<Rightarrow> Inl (LibExc ''TypeError''))
                  else Inr ())
                 (\<lambda>u. if truthy (map_of out ''address'')
                          \<and> truthy_str (get_fallback_address lnaddr)
                          \<and> map_option PyStr (get_fallback_address lnaddr) \<noteq> map_of out ''address''
                       then Inl (InvalidBitcoinURI
                                   ''Inconsistent lightning field in bip21: address'' NoArg)
                       else Inr out)))"

text \<open>The decoding of a URI that has a colon, up to the \<open>sig\<close> field (lines 52 to
  104): the dictionary as it stands before the block of the \<open>lightning\<close> field.\<close>

definition bip21_decode_fields :: "env \<Rightarrow> string \<Rightarrow> pyexc + (string \<times> pyval) list" where
  "bip21_decode_fields e uri =
     bind_exc (urlparse e uri) (\<lambda>u.
       if lower (scheme u) \<noteq> BITCOIN_BIP21_URI_SCHEME then
         Inl (InvalidBitcoinURI ''Not a bitcoin URI'' NoArg)
       else
         bind_exc (bip21_address_and_query u) (\<lambda>(address, pq).
           case first_duplicate pq of
             Some k \<Rightarrow> Inl (InvalidBitcoinURI ''Duplicate Key: {}'' (ReprStr k))
           | None \<Rightarrow>
               bind_exc (bip21_set_address e address (map (\<lambda>(k, v). (k, PyStr (hd v))) pq))
                 (\<lambda>out. bind_exc (bip21_set_amount out)
                 (\<lambda>out. bind_exc (bip21_set_int ''time'' ''failed to parse 'time' field: {}''
                                     (bip21_set_memo out))
                 (\<lambda>out. bind_exc (bip21_set_int ''exp'' ''failed to parse 'exp' field: {}'' out)
                 (\<lambda>out. bip21_set_sig e out))))))"

definition parse_bip21_URI :: "env \<Rightarrow> string \<Rightarrow> pyexc + (string \<times> pyval) list" where
  "parse_bip21_URI e uri =
     (if CHR '':'' \<notin> set uri then
        (if \<not> is_address e uri then Inl (InvalidBitcoinURI ''Not a bitcoin address'' NoArg)
         else Inr [(''address'', PyStr uri)])
      else bind_exc (bip21_decode_fields e uri) (bip21_check_lightning e))"

subsection \<open>\<^verbatim>\<open>create_bip21_uri\<close>\<close>

fun str_of_nat :: "nat \<Rightarrow> string" where
  "str_of_nat n =
     (if n < 10 then [''0123456789'' ! n] else str_of_nat (n div 10) @ [''0123456789'' ! (n mod 10)])"

fun pad_digits :: "nat \<Rightarrow> nat \<Rightarrow> string" where
  "pad_digits 0 m = []"
| "pad_digits (Suc k) m = pad_digits k (m div 10) @ [''0123456789'' ! (m mod 10)]"

definition rstrip_char :: "char \<Rightarrow> string \<Rightarrow> string" where
  "rstrip_char c s = rev (dropWhile (\<lambda>x. x = c) (rev s))"

text \<open>
  Modelled from the spec: \<^verbatim>\<open>format_satoshis_plain\<close> of \<^verbatim>\<open>electrum/util.py\<close>, the spec's
  \<open>format(n)\<close>, which is not among the sources. It renders an amount of minor units as a
  plain decimal number of whole units:
  \<^verbatim>\<open>"{:.8f}".format(Decimal(x) / 10**8).rstrip('0').rstrip('.')\<close>. The division rounds a
  coefficient of more than 28 digits (half-even); the quotient then has at most eight
  decimals.
\<close>

definition format_satoshis_plain :: "int \<Rightarrow> string" where
  "format_satoshis_plain x =
     (let a = nat \<bar>x\<bar>;
          k = ndigits a - dec_prec;
          r = round_half_even k a;
          n = (if ndigits r > dec_prec then (r div 10) * 10 ^ (k + 1) else r * 10 ^ k)
      in rstrip_char CHR ''.''
           (rstrip_char CHR ''0''
              ((if x < 0 then ''-'' else []) @ str_of_nat (n div 10 ^ 8) @ ''.''
                 @ pad_digits 8 (n mod 10 ^ 8))))"

text \<open>\<^verbatim>\<open>create_bip21_uri\<close>. The extra query parameters are a dictionary from strings to
  strings; a key that \<^verbatim>\<open>quote\<close> would change is refused.\<close>

fun extra_params :: "(string \<times> string) list \<Rightarrow> pyexc + string list" where
  "extra_params [] = Inr []"
| "extra_params ((k, v) # r) =
     (if k \<noteq> quote k then Inl (Exc ''Exception'' ''illegal key for URI: {}'' (ReprStr k))
      else bind_exc (extra_params r) (\<lambda>qs. Inr ((k @ ''='' @ quote v) # qs)))"

definition join_with :: "string \<Rightarrow> string list \<Rightarrow> string" where
  "join_with sep xs = (case xs of [] \<Rightarrow> [] | x # r \<Rightarrow> x @ concat (map (\<lambda>y. sep @ y) r))"

definition create_bip21_uri ::
  "env \<Rightarrow> string \<Rightarrow> int option \<Rightarrow> string option \<Rightarrow> (string \<times> string) list \<Rightarrow> pyexc + string" where
  "create_bip21_uri e addr amount_sat message extra_query_params =
     (if \<not> is_address e addr then Inr []
      else
        bind_exc (extra_params extra_query_params) (\<lambda>extra.
          Inr (urlunparse BITCOIN_BIP21_URI_SCHEME addr
                 (join_with ''&''
                    ((case amount_sat of
                        None \<Rightarrow> []
                      | Some a \<Rightarrow> if a = 0 then [] else [''amount='' @ format_satoshis_plain a])
                     @ (case message of
                          None \<Rightarrow> []
                        | Some m \<Rightarrow> if m = [] then [] else [''message='' @ quote m])
                     @ extra)))))"

subsection \<open>The methods that parse an output\<close>

text \<open>\<^verbatim>\<open>re.match('^' + RE_ALIAS + '$', r)\<close>, group 2: the text ends with \<open><\<close>, letters and
  digits, \<open>>\<close> (a final line feed may follow), and what stands before has no line feed
  but in its trailing whitespace.\<close>

definition match_RE_ALIAS :: "string \<Rightarrow> string option" where
  "match_RE_ALIAS r =
     (let r1 = (if r \<noteq> [] \<and> last r = CHR 0x0A then butlast r else r)
      in if r1 = [] \<or> last r1 \<noteq> CHR ''>'' then None
         else
           (let g = rev (takeWhile is_alnum (rev (butlast r1)));
                p = rev (dropWhile is_alnum (rev (butlast r1)))
            in if g = [] \<or> p = [] \<or> last p \<noteq> CHR ''<''
                  \<or> CHR 0x0A \<in> set (rstrip (butlast p))
               then None else Some g))"

definition parse_address :: "env \<Rightarrow> string \<Rightarrow> pyexc + string" where
  "parse_address e line =
     (let r = strip line;
          address = (case match_RE_ALIAS r of None \<Rightarrow> r | Some g \<Rightarrow> g)
      in if is_address e address then Inr address else Inl (Exc ''AssertionError'' [] NoArg))"

text \<open>\<^verbatim>\<open>bytes.fromhex\<close>: pairs of hexadecimal digits, ASCII whitespace between them skipped.\<close>

fun bytes_fromhex :: "string \<Rightarrow> pyexc + bytes" where
  "bytes_fromhex [] = Inr []"
| "bytes_fromhex [c] =
     (if c \<in> set [CHR 0x09, CHR 0x0A, CHR 0x0B, CHR 0x0C, CHR 0x0D, CHR 0x20] then Inr []
      else Inl (LibExc ''ValueError''))"
| "bytes_fromhex (a # b # r) =
     (if a \<in> set [CHR 0x09, CHR 0x0A, CHR 0x0B, CHR 0x0C, CHR 0x0D, CHR 0x20]
      then bytes_fromhex (b # r)
      else if is_hexdigit a \<and> is_hexdigit b
      then bind_exc (bytes_fromhex r) (\<lambda>bs. Inr (char_of (16 * hexval a + hexval b) # bs))
      else Inl (LibExc ''ValueError''))"

text \<open>\<^verbatim>\<open>parse_script\<close>: with no word the loop does not run and the script is empty. The
  first word ends the call: \<^verbatim>\<open>opcodes\<close> and \<^verbatim>\<open>construct_script\<close> are unbound names, and a
  word that is not hexadecimal fails in \<^verbatim>\<open>bytes.fromhex\<close> before.\<close>

definition parse_script :: "string \<Rightarrow> pyexc + string" where
  "parse_script x =
     (case split_ws x of
        [] \<Rightarrow> Inr []
      | word # ws \<Rightarrow>
          if take 3 word = ''OP_'' then Inl (unbound_name ''opcodes'')
          else bind_exc (bytes_fromhex word) (\<lambda>b. Inl (unbound_name ''construct_script'')))"

text \<open>\<^verbatim>\<open>parse_output\<close> catches every exception of both attempts and returns \<^verbatim>\<open>None\<close> when
  both fail.\<close>

definition parse_output :: "env \<Rightarrow> string \<Rightarrow> bytes option" where
  "parse_output e x =
     (case bind_exc (parse_address e x) (address_to_script e) of
        Inr b \<Rightarrow> Some b
      | Inl err \<Rightarrow>
          (case bind_exc (parse_script x) bytes_fromhex of
             Inr b \<Rightarrow> Some b
           | Inl err2 \<Rightarrow> None))"

text \<open>\<^verbatim>\<open>parse_amount\<close>. \<^verbatim>\<open>pow(10, n)\<close> is a float for a negative \<open>n\<close>, which a
  \<^verbatim>\<open>Decimal\<close> does not multiply. Any exception in the \<^verbatim>\<open>try\<close> makes Python evaluate
  \<^verbatim>\<open>decimal.InvalidOperation\<close>, and \<^verbatim>\<open>decimal\<close> is an unbound name.\<close>

definition parse_amount :: "env \<Rightarrow> string \<Rightarrow> pyexc + pyval" where
  "parse_amount e x0 =
     (let x = strip x0
      in if x = [] then Inl (Exc ''Exception'' ''Amount is empty'' NoArg)
         else if truthy_int (parse_max_spend e x) then Inr (PyStr x)
         else
           (case (if get_decimal_point e < 0 then Inl (LibExc ''TypeError'')
                  else bind_exc (py_Decimal x) (\<lambda>d.
                         bind_exc (dec_mul (dec_of_int (10 ^ nat (get_decimal_point e))) d)
                           dec_to_int)) of
              Inl err \<Rightarrow> Inl (unbound_name ''decimal'')
            | Inr n \<Rightarrow> Inr (PyInt n)))"

definition parse_address_and_amount :: "env \<Rightarrow> string \<Rightarrow> pyexc + PartialTxOutput" where
  "parse_address_and_amount e line =
     (case split_on CHR '','' line of
        [x, y] \<Rightarrow>
          bind_exc (parse_amount e y) (\<lambda>amount. Inr (PartialTxOutput (parse_output e x) amount))
      | _ \<Rightarrow> Inl (Exc ''Exception''
                  ''expected two comma-separated values: (address, amount)'' NoArg))"

subsection \<open>\<^verbatim>\<open>_parse_as_multiline\<close>\<close>

text \<open>The local variables of the loop. The function returns \<open>outputs\<close> only; \<open>errors\<close>
  is written to \<^verbatim>\<open>self.error\<close> as a string, \<open>total\<close> and \<open>is_max\<close> are not used after
  the loop.\<close>

record multiline_locals =
  outputs :: "PartialTxOutput list"
  errors :: "PayToLineError list"
  total :: int
  is_max :: bool

text \<open>The loop over \<^verbatim>\<open>enumerate(lines)\<close>. \<^verbatim>\<open>parse_max_spend\<close> of an integer is \<^verbatim>\<open>None\<close>;
  adding a string that is not spend-max to \<open>total\<close> would raise \<^verbatim>\<open>TypeError\<close>.\<close>

fun multiline_loop :: "env \<Rightarrow> nat \<Rightarrow> string list \<Rightarrow> multiline_locals \<Rightarrow> pyexc + multiline_locals" where
  "multiline_loop e i [] st = Inr st"
| "multiline_loop e i (line # lines) st =
     (case parse_address_and_amount e line of
        Inl x \<Rightarrow>
          multiline_loop e (Suc i) lines
            (st\<lparr>errors := errors st @ [PayToLineError (strip line) x i True]\<rparr>)
      | Inr output \<Rightarrow>
          (case txo_value output of
             PyStr s \<Rightarrow>
               if truthy_int (parse_max_spend e s) then
                 multiline_loop e (Suc i) lines
                   (st\<lparr>outputs := outputs st @ [output], is_max := True\<rparr>)
               else Inl (LibExc ''TypeError'')
           | PyInt n \<Rightarrow>
               multiline_loop e (Suc i) lines
                 (st\<lparr>outputs := outputs st @ [output], total := total st + n\<rparr>)))"

definition parse_as_multiline ::
  "env \<Rightarrow> PaymentIdentifier \<Rightarrow> string \<Rightarrow> pyexc + PartialTxOutput list \<times> PaymentIdentifier" where
  "parse_as_multiline e self txt =
     (let lines = filter (\<lambda>i. i \<noteq> []) (split_on CHR 0x0A txt)
      in bind_exc
           (multiline_loop e 0 lines \<lparr>outputs = [], errors = [], total = 0, is_max = False\<rparr>)
           (\<lambda>st. Inr (outputs st,
                       if length lines > 1 \<or> outputs st \<noteq> [] then
                         self\<lparr>error := (if errors st \<noteq> [] then Some (ErrorLines (errors st))
                                        else None)\<rparr>
                       else self)))"

subsection \<open>\<^verbatim>\<open>parse\<close>\<close>

definition maybe_extract_lightning_payment_identifier :: "string \<Rightarrow> string option" where
  "maybe_extract_lightning_payment_identifier data0 =
     (let data1 = lower (strip data0);
          data = (if prefix (LIGHTNING_URI_SCHEME @ '':ln'') data1
                  then drop (length (LIGHTNING_URI_SCHEME @ '':'')) data1 else data1)
      in if prefix ''ln'' data then Some data else None)"

text \<open>\<^verbatim>\<open>re.match(RE_EMAIL, text)\<close>: a word character starts a run of letters, digits and
  \<open>._%+-\<close> that ends at \<open>@\<close>; then letters, digits, points and hyphens, a point, and two
  to seven letters or bars that end at a word boundary.\<close>

definition is_word :: "char \<Rightarrow> bool" where
  "is_word c = (is_alnum c \<or> c = CHR ''_'')"

definition match_RE_EMAIL :: "string \<Rightarrow> bool" where
  "match_RE_EMAIL t =
     (let l = takeWhile (\<lambda>c. is_alnum c \<or> c \<in> set ''._%+-'') t;
          rest0 = dropWhile (\<lambda>c. is_alnum c \<or> c \<in> set ''._%+-'') t
      in l \<noteq> [] \<and> is_word (hd l) \<and> rest0 \<noteq> [] \<and> hd rest0 = CHR ''@'' \<and>
         (let rest = tl rest0;
              n = length (takeWhile (\<lambda>c. is_alnum c \<or> c \<in> set ''.-'') rest)
          in list_ex (\<lambda>j. rest ! j = CHR ''.'' \<and>
               list_ex (\<lambda>k. j + 1 + k \<le> length rest
                     \<and> list_all (\<lambda>c. is_alpha c \<or> c = CHR ''|'') (take k (drop (j + 1) rest))
                     \<and> is_word (rest ! (j + k))
                         \<noteq> (j + 1 + k < length rest \<and> is_word (rest ! (j + 1 + k))))
                 [2 ..< 8])
               [1 ..< n]))"

text \<open>An identifier as \<^verbatim>\<open>__init__\<close> leaves it before it calls \<^verbatim>\<open>parse\<close>.\<close>

definition new_identifier :: "string \<Rightarrow> PaymentIdentifier" where
  "new_identifier t =
     \<lparr>pi_text = t, pi_type = None, error = None, warning = None, multiline_outputs = None,
      bolt11 = None, bip21 = None, spk = None, openalias = None, openalias_data = None,
      bip70 = None, bip70_data = None, lnurl = None, lnurl_data = None\<rparr>"

text \<open>\<^verbatim>\<open>parse\<close>. The handler of \<^verbatim>\<open>InvalidBitcoinURI\<close> calls \<^verbatim>\<open>_\<close>, an unbound name, before
  it assigns \<^verbatim>\<open>self.error\<close>; any other exception of \<^verbatim>\<open>parse_bip21_URI\<close> is not caught.\<close>

definition parse :: "env \<Rightarrow> PaymentIdentifier \<Rightarrow> string \<Rightarrow> pyexc + PaymentIdentifier" where
  "parse e self txt0 =
     (let txt = strip txt0
      in if txt = [] then Inr self
         else
           bind_exc (parse_as_multiline e self txt) (\<lambda>(outs, self1).
             if outs \<noteq> [] then
               Inr (self1\<lparr>pi_type := Some ''multiline'', multiline_outputs := Some outs\<rparr>)
             else
               (case maybe_extract_lightning_payment_identifier txt of
                  Some invoice_or_lnurl \<Rightarrow>
                    if prefix ''lnurl'' invoice_or_lnurl then
                      (case decode_lnurl e invoice_or_lnurl of
                         Inl x \<Rightarrow>
                           Inr (self1\<lparr>pi_type := Some ''lnurl'',
                                  error := Some (ErrorText
                                    (''Error parsing Lightning invoice:'' @ [CHR 0x0A] @ ''{}'')
                                    (StrExc x))\<rparr>)
                       | Inr url \<Rightarrow> Inr (self1\<lparr>pi_type := Some ''lnurl'', lnurl := Some url\<rparr>))
                    else Inr (self1\<lparr>pi_type := Some ''bolt11'', bolt11 := Some invoice_or_lnurl\<rparr>)
                | None \<Rightarrow>
                    if prefix (BITCOIN_BIP21_URI_SCHEME @ '':'') (lower txt) then
                      (case parse_bip21_URI e txt of
                         Inl x \<Rightarrow>
                           if exc_class x = ''InvalidBitcoinURI'' then Inl (unbound_name ''_'')
                           else Inl x
                       | Inr out \<Rightarrow>
                           Inr (self1\<lparr>pi_type := Some ''bip21'', bip21 := Some out,
                                  bip70 := map_of out ''r''\<rparr>))
                    else if truthy_str (parse_output e txt) then
                      Inr (self1\<lparr>pi_type := Some ''spk'', spk := parse_output e txt\<rparr>)
                    else if match_RE_EMAIL txt then
                      Inr (self1\<lparr>pi_type := Some ''alias'', openalias := Some txt\<rparr>)
                    else
                      Inr (self1\<lparr>error := Some (ErrorExc (Exc ''FailedToParsePaymentIdentifier''
                             (''Unknown payment identifier:'' @ [CHR 0x0A]
                                @ (if length txt > 100 then take 100 txt @ ''...'' else txt))
                             NoArg))\<rparr>))))"

text \<open>\<^verbatim>\<open>PaymentIdentifier(config, contacts, text)\<close>: the constructor ends with
  \<^verbatim>\<open>self.parse(text)\<close>.\<close>

definition PaymentIdentifier_init :: "env \<Rightarrow> string \<Rightarrow> pyexc + PaymentIdentifier" where
  "PaymentIdentifier_init e t = parse e (new_identifier t) t"

subsection \<open>The loop, line by line\<close>

text \<open>
  What the loop of \<^verbatim>\<open>_parse_as_multiline\<close> accumulates, written on the lines one by one:
  the outputs of the lines on which \<^verbatim>\<open>parse_address_and_amount\<close> returns, in order, and a
  \<^verbatim>\<open>PayToLineError\<close> with the index, the stripped text and the exception for every line
  on which it raises. Both follow the code: a line whose destination resolves to neither
  an address nor a script does not raise (\<^verbatim>\<open>parse_output\<close> returns \<^verbatim>\<open>None\<close>), so it is
  among the outputs here, with no script, and not among the errors.
\<close>

definition loop_outputs :: "env \<Rightarrow> string list \<Rightarrow> PartialTxOutput list" where
  "loop_outputs e lines =
     concat (map (\<lambda>l. case parse_address_and_amount e l of Inl x \<Rightarrow> [] | Inr out \<Rightarrow> [out]) lines)"

definition loop_errors :: "env \<Rightarrow> nat \<Rightarrow> string list \<Rightarrow> PayToLineError list" where
  "loop_errors e i lines =
     concat (map (\<lambda>(k, l). case parse_address_and_amount e l of
                              Inl x \<Rightarrow> [PayToLineError (strip l) x k True] | Inr out \<Rightarrow> [])
              (enumerate i lines))"

subsection \<open>The shape of a rendered amount\<close>

text \<open>A number as \<^verbatim>\<open>format_satoshis_plain\<close> writes it: the digits of the integer part and,
  when there are decimals left, a point and the decimals.\<close>

definition plain_number :: "string \<Rightarrow> string \<Rightarrow> string" where
  "plain_number ip fp = (if fp = [] then ip else ip @ ''.'' @ fp)"

section \<open>Example collaborators\<close>

text \<open>
  A small instance of the collaborators, for evaluating the functions on concrete
  inputs: two valid addresses, an invoice codec that reads the amount written after
  \<open>lnbc\<close>, a callback that always answers with an invoice of 2000 sat, \<open>!\<close> as the
  spend-max token and 8 as the decimal point.
\<close>

definition example_lndecode :: "string \<Rightarrow> pyexc + LnAddr" where
  "example_lndecode s =
     (if prefix ''lnbc'' s \<and> list_all is_digit (drop 4 s) then
        Inr \<lparr>get_amount_sat =
               (if drop 4 s = [] then None else Some (Dec False (nat_of_digits (drop 4 s)) 0)),
             get_fallback_address = None\<rparr>
      else Inl (LibExc ''LnDecodeException''))"

definition example_env :: env where
  "example_env =
     \<lparr>is_address = (\<lambda>a. a = ''addr1'' \<or> a = ''addr2''),
      address_to_script = (\<lambda>a. Inr (''script of '' @ a)),
      base_decode_hex = (\<lambda>s. Inr s),
      lndecode = example_lndecode,
      decode_lnurl = (\<lambda>s. Inr ''https://pay.example/lnurlp''),
      callback_lnurl = (\<lambda>url amount. Inr (Some ''lnbc2000'')),
      from_bech32_amount_sat = (\<lambda>s. Inr (Some (PyInt 2000))),
      parse_max_spend = (\<lambda>s. if s = ''!'' then Some 1 else None),
      get_decimal_point = 8,
      netloc_checks = (\<lambda>n. True)\<rparr>"

text \<open>The same collaborators with an invoice codec that decodes every invoice to the
  given amount (in sat, as \<^verbatim>\<open>get_amount_sat\<close> returns it) and fallback address.\<close>

definition example_env_with :: "pydecimal option \<Rightarrow> string option \<Rightarrow> env" where
  "example_env_with amt fb =
     example_env\<lparr>lndecode := (\<lambda>s. Inr \<lparr>get_amount_sat = amt, get_fallback_address = fb\<rparr>)\<rparr>"

text \<open>A Lightning pointer after round 1, whose metadata reports the bounds 100 and 5000.\<close>

definition example_pointer :: PaymentIdentifier where
  "example_pointer =
     (new_identifier ''lnurl1example'')
       \<lparr>pi_type := Some ''lnurl'', lnurl := Some ''https://pay.example/lnurlp'',
        lnurl_data := Some \<lparr>callback_url = ''https://pay.example/cb'', max_sendable_sat = 5000,
          min_sendable_sat = 100, metadata_plaintext = ''example'', comment_allowed = 0\<rparr>\<rparr>"

section \<open>Properties of round 2\<close>

text \<open>
  C3. When the amount is within the bounds, the callback request succeeds and the
  invoice it returns decodes to an amount other than the requested one, \<^verbatim>\<open>round_2\<close>
  raises \<^verbatim>\<open>Exception("lnurl returned invoice with wrong amount")\<close>; it leaves the
  identifier as it was (the returned invoice is not stored in \<^verbatim>\<open>bolt11\<close>), does not call
  \<^verbatim>\<open>on_success\<close>, and has sent exactly one request (no retry).
\<close>

theorem round_2_wrong_amount_is_rejected:
  assumes "truthy_str (lnurl self)"
    and "lnurl_data self = Some d"
    and "min_sendable_sat d \<le> a" and "a \<le> max_sendable_sat d"
    and "callback_lnurl e (callback_url d) (a * 1000) = Inr invoice"
    and "from_bech32_amount_sat e invoice = Inr decoded"
    and "decoded \<noteq> Some (PyInt a)"
  shows "round_2 e self (Some a) =
           \<lparr>ro_self = self,
            ro_raised = Some (Exc ''Exception'' ''lnurl returned invoice with wrong amount'' NoArg),
            ro_requests = [(callback_url d, a * 1000)],
            ro_on_success = False\<rparr>"
  using assms by (simp add: round_2_def)

theorem round_2_wrong_amount_witness:
  "round_2 example_env example_pointer (Some 1000) =
     \<lparr>ro_self = example_pointer,
      ro_raised = Some (Exc ''Exception'' ''lnurl returned invoice with wrong amount'' NoArg),
      ro_requests = [(''https://pay.example/cb'', 1000000)],
      ro_on_success = False\<rparr>
   \<and> bolt11 example_pointer = None"
proof -
  let ?d = "\<lparr>callback_url = ''https://pay.example/cb'', max_sendable_sat = 5000,
          min_sendable_sat = 100, metadata_plaintext = ''example'', comment_allowed = 0\<rparr>"
  have "round_2 example_env example_pointer (Some 1000) =
           \<lparr>ro_self = example_pointer,
            ro_raised = Some (Exc ''Exception'' ''lnurl returned invoice with wrong amount'' NoArg),
            ro_requests = [(callback_url ?d, 1000 * 1000)],
            ro_on_success = False\<rparr>"
    by (rule round_2_wrong_amount_is_rejected [where d = "?d" and invoice = "Some ''lnbc2000''"
          and decoded = "Some (PyInt 2000)"])
       (simp_all add: example_pointer_def example_env_def new_identifier_def)
  then show ?thesis
    by (simp add: example_pointer_def new_identifier_def)
qed

text \<open>
  C4, evaluated. With bounds 100 and 5000 and the amount 50 (and likewise 6000), no
  callback request is sent, but the branch that should record the error reads
  \<^verbatim>\<open>self._lnurl_data\<close>, an attribute the class never sets: the call raises
  \<^verbatim>\<open>AttributeError\<close> and \<^verbatim>\<open>self.error\<close> stays unset. The amounts 100 and 5000 pass the
  bounds check and one request is sent.
\<close>

theorem round_2_out_of_range_raises_attribute_error:
  "round_2 example_env example_pointer (Some 50) =
     \<lparr>ro_self = example_pointer, ro_raised = Some (no_attribute ''_lnurl_data''),
      ro_requests = [], ro_on_success = False\<rparr>
   \<and> round_2 example_env example_pointer (Some 6000) =
     \<lparr>ro_self = example_pointer, ro_raised = Some (no_attribute ''_lnurl_data''),
      ro_requests = [], ro_on_success = False\<rparr>
   \<and> error example_pointer = None
   \<and> ro_requests (round_2 example_env example_pointer (Some 100)) =
       [(''https://pay.example/cb'', 100000)]
   \<and> ro_requests (round_2 example_env example_pointer (Some 5000)) =
       [(''https://pay.example/cb'', 5000000)]"
  by (simp add: round_2_def example_pointer_def example_env_def new_identifier_def)

section \<open>Properties of classification\<close>

lemma whitespace_not_Nil: "[] \<notin> set whitespace"
  by (simp add: whitespace_def)

lemma space_len_whitespace:
  "\<forall>w \<in> set whitespace. space_len whitespace (w @ r) = length w"
  unfolding whitespace_def space_len_def by simp

lemma strip_left_whitespace:
  assumes "w \<in> set whitespace"
  shows "strip_left whitespace (w @ r) = strip_left whitespace r"
proof -
  have "w \<noteq> []" using assms whitespace_not_Nil by auto
  then obtain c v where w: "w = c # v" by (cases w) auto
  have "space_len whitespace (w @ r) = length w"
    using space_len_whitespace assms by blast
  then have "space_len whitespace (c # v @ r) = Suc (length v)"
    using w by simp
  then show ?thesis using w by simp
qed

lemma lstrip_concat:
  "set ws \<subseteq> set whitespace \<Longrightarrow> lstrip (concat ws @ r) = lstrip r"
proof (induction ws)
  case Nil
  then show ?case by simp
next
  case (Cons w ws)
  then have w: "w \<in> set whitespace" and "lstrip (concat ws @ r) = lstrip r" by auto
  then show ?case
    using strip_left_whitespace [OF w, of "concat ws @ r"] by (simp add: lstrip_def)
qed

lemma strip_of_whitespace:
  assumes "set ws \<subseteq> set whitespace"
  shows "strip (concat ws) = []"
proof -
  have "lstrip (concat ws) = lstrip []" using lstrip_concat [OF assms, of "[]"] by simp
  then show ?thesis by (simp add: strip_def lstrip_def rstrip_def)
qed

text \<open>
  C9. When the text is empty or made of whitespace characters only, that is, a
  concatenation of characters of \<^verbatim>\<open>str.isspace\<close> (the ASCII ones and the others, such as
  U+00A0 and U+3000), the constructor returns without an exception and leaves the
  identifier as it was initialised: no type, so \<^verbatim>\<open>is_valid()\<close> is false, and no error.
\<close>

theorem classify_blank_string:
  assumes "set ws \<subseteq> set whitespace"
  shows "PaymentIdentifier_init e (concat ws) = Inr (new_identifier (concat ws))
         \<and> pi_type (new_identifier (concat ws)) = None
         \<and> \<not> is_valid (new_identifier (concat ws))
         \<and> error (new_identifier (concat ws)) = None"
  using strip_of_whitespace [OF assms]
  by (simp add: PaymentIdentifier_init_def parse_def new_identifier_def is_valid_def)

text \<open>The empty text; and the text of a space, a tab, U+00A0, U+3000 and a line
  feed.\<close>

theorem classify_blank_string_witness:
  "set [[CHR 0x20], [CHR 0x09], [CHR 0xC2, CHR 0xA0], [CHR 0xE3, CHR 0x80, CHR 0x80], [CHR 0x0A]]
     \<subseteq> set whitespace
   \<and> PaymentIdentifier_init example_env
         [CHR 0x20, CHR 0x09, CHR 0xC2, CHR 0xA0, CHR 0xE3, CHR 0x80, CHR 0x80, CHR 0x0A]
       = Inr (new_identifier
               [CHR 0x20, CHR 0x09, CHR 0xC2, CHR 0xA0, CHR 0xE3, CHR 0x80, CHR 0x80, CHR 0x0A])
   \<and> \<not> is_valid (new_identifier
               [CHR 0x20, CHR 0x09, CHR 0xC2, CHR 0xA0, CHR 0xE3, CHR 0x80, CHR 0x80, CHR 0x0A])
   \<and> error (new_identifier
               [CHR 0x20, CHR 0x09, CHR 0xC2, CHR 0xA0, CHR 0xE3, CHR 0x80, CHR 0x80, CHR 0x0A]) = None
   \<and> PaymentIdentifier_init example_env [] = Inr (new_identifier [])"
proof -
  have w: "set [[CHR 0x20], [CHR 0x09], [CHR 0xC2, CHR 0xA0], [CHR 0xE3, CHR 0x80, CHR 0x80], [CHR 0x0A]]
             \<subseteq> set whitespace"
    by (simp add: whitespace_def)
  have e: "set ([] :: string list) \<subseteq> set whitespace"
    by simp
  show ?thesis
    using w classify_blank_string [OF w, of example_env] classify_blank_string [OF e, of example_env]
    by simp
qed

section \<open>Properties of the URI decoder\<close>

lemma check_lightning_zero_amount:
  assumes "map_of out ''amount'' = None \<or> map_of out ''amount'' = Some (PyInt 0)"
    and "map_of out ''lightning'' = Some (PyStr invoice)"
    and "lndecode e invoice = Inr lnaddr"
  shows "bip21_check_lightning e out =
           (if truthy (map_of out ''address'') \<and> truthy_str (get_fallback_address lnaddr)
               \<and> map_option PyStr (get_fallback_address lnaddr) \<noteq> map_of out ''address''
            then Inl (InvalidBitcoinURI ''Inconsistent lightning field in bip21: address'' NoArg)
            else Inr out)"
proof -
  have "\<not> truthy (map_of out ''amount'')"
    using assms(1) by auto
  then show ?thesis
    using assms(2,3) by (simp add: bip21_check_lightning_def bind_exc_def)
qed

text \<open>
  C10. When the fields of a URI decode and the \<open>amount\<close> field is absent or decodes to 0,
  the amount of the embedded invoice is not looked at, whatever it is (it may even be
  missing): the result does not depend on it. Decoding returns the fields, unless the
  address check that follows finds a fallback address in the invoice that differs from
  the address of the URI; then it fails with the inconsistent-address error. So a zero
  amount with an invoice of a nonzero amount does not always decode successfully.
\<close>

theorem zero_amount_skips_the_amount_check:
  assumes "CHR '':'' \<in> set uri"
    and "bip21_decode_fields e uri = Inr out"
    and "map_of out ''amount'' = None \<or> map_of out ''amount'' = Some (PyInt 0)"
    and "map_of out ''lightning'' = Some (PyStr invoice)"
    and "lndecode e invoice = Inr lnaddr"
  shows "parse_bip21_URI e uri =
           (if truthy (map_of out ''address'') \<and> truthy_str (get_fallback_address lnaddr)
               \<and> map_option PyStr (get_fallback_address lnaddr) \<noteq> map_of out ''address''
            then Inl (InvalidBitcoinURI ''Inconsistent lightning field in bip21: address'' NoArg)
            else Inr out)"
  using assms(1,2) check_lightning_zero_amount [OF assms(3,4,5)]
  by (simp add: parse_bip21_URI_def bind_exc_def)

theorem zero_amount_skips_the_amount_check_witness:
  "parse_bip21_URI example_env ''bitcoin:addr1?amount=0&lightning=lnbc500''
     = Inr [(''amount'', PyInt 0), (''lightning'', PyStr ''lnbc500''), (''address'', PyStr ''addr1'')]
   \<and> parse_bip21_URI example_env ''bitcoin:addr1?lightning=lnbc500''
     = Inr [(''lightning'', PyStr ''lnbc500''), (''address'', PyStr ''addr1'')]"
proof -
  let ?uri = "''bitcoin:addr1?amount=0&lightning=lnbc500''"
  let ?out = "[(''amount'', PyInt 0), (''lightning'', PyStr ''lnbc500''), (''address'', PyStr ''addr1'')]"
  let ?uri2 = "''bitcoin:addr1?lightning=lnbc500''"
  let ?out2 = "[(''lightning'', PyStr ''lnbc500''), (''address'', PyStr ''addr1'')]"
  have c1: "CHR '':'' \<in> set ?uri" and c2: "CHR '':'' \<in> set ?uri2" by simp_all
  have f1: "bip21_decode_fields example_env ?uri = Inr ?out" by code_simp
  have f2: "bip21_decode_fields example_env ?uri2 = Inr ?out2" by code_simp
  have a1: "map_of ?out ''amount'' = None \<or> map_of ?out ''amount'' = Some (PyInt 0)" by simp
  have a2: "map_of ?out2 ''amount'' = None \<or> map_of ?out2 ''amount'' = Some (PyInt 0)" by simp
  have l1: "map_of ?out ''lightning'' = Some (PyStr ''lnbc500'')" by simp
  have l2: "map_of ?out2 ''lightning'' = Some (PyStr ''lnbc500'')" by simp
  have d: "lndecode example_env ''lnbc500''
             = Inr \<lparr>get_amount_sat = Some (Dec False 500 0), get_fallback_address = None\<rparr>"
    by code_simp
  show ?thesis
    using zero_amount_skips_the_amount_check [OF c1 f1 a1 l1 d]
          zero_amount_skips_the_amount_check [OF c2 f2 a2 l2 d]
    by simp
qed

text \<open>
  With an invoice whose fallback address is \<open>addr2\<close>, the URI of \<open>addr1\<close> with amount 0
  (or with no amount) and an invoice of 500 sat is refused.
\<close>

theorem zero_amount_counterexample:
  "parse_bip21_URI (example_env_with (Some (Dec False 500 0)) (Some ''addr2''))
         ''bitcoin:addr1?amount=0&lightning=lnbc1''
     = Inl (InvalidBitcoinURI ''Inconsistent lightning field in bip21: address'' NoArg)
   \<and> parse_bip21_URI (example_env_with (Some (Dec False 500 0)) (Some ''addr2''))
         ''bitcoin:addr1?lightning=lnbc1''
     = Inl (InvalidBitcoinURI ''Inconsistent lightning field in bip21: address'' NoArg)"
  by code_simp

lemma check_lightning_nonzero_amount:
  assumes "map_of out ''amount'' = Some (PyInt a)" and "a \<noteq> 0"
    and "map_of out ''lightning'' = Some (PyStr invoice)"
    and "lndecode e invoice = Inr lnaddr"
    and "get_amount_sat lnaddr = Some d" and "dec_to_int d = Inr b"
  shows "bip21_check_lightning e out =
           (if \<bar>a - b\<bar> > 1
            then Inl (InvalidBitcoinURI ''Inconsistent lightning field in bip21: amount'' NoArg)
            else if truthy (map_of out ''address'') \<and> truthy_str (get_fallback_address lnaddr)
               \<and> map_option PyStr (get_fallback_address lnaddr) \<noteq> map_of out ''address''
            then Inl (InvalidBitcoinURI ''Inconsistent lightning field in bip21: address'' NoArg)
            else Inr out)"
  using assms by (simp add: bip21_check_lightning_def bind_exc_def int_of_amount_sat_def)

text \<open>
  C2. The two amounts that are compared are the \<open>amount\<close> field as decoded to a whole
  number \<open>a\<close> of sat, and the integer part \<open>b\<close> of the amount of the invoice
  (\<^verbatim>\<open>int(lnaddr.get_amount_sat())\<close>). When the fields of a URI decode with \<open>a \<noteq> 0\<close> and the
  embedded invoice decodes with an amount, decoding fails with the inconsistent-amount
  error when \<open>\<bar>a - b\<bar> > 1\<close>; when \<open>\<bar>a - b\<bar> \<le> 1\<close> the amount check passes and decoding
  returns the fields, unless the address check that follows finds a fallback address that
  differs from the address.
\<close>

theorem lightning_amount_tolerance:
  assumes "CHR '':'' \<in> set uri"
    and "bip21_decode_fields e uri = Inr out"
    and "map_of out ''amount'' = Some (PyInt a)" and "a \<noteq> 0"
    and "map_of out ''lightning'' = Some (PyStr invoice)"
    and "lndecode e invoice = Inr lnaddr"
    and "get_amount_sat lnaddr = Some d" and "dec_to_int d = Inr b"
  shows "parse_bip21_URI e uri =
           (if \<bar>a - b\<bar> > 1
            then Inl (InvalidBitcoinURI ''Inconsistent lightning field in bip21: amount'' NoArg)
            else if truthy (map_of out ''address'') \<and> truthy_str (get_fallback_address lnaddr)
               \<and> map_option PyStr (get_fallback_address lnaddr) \<noteq> map_of out ''address''
            then Inl (InvalidBitcoinURI ''Inconsistent lightning field in bip21: address'' NoArg)
            else Inr out)"
  using assms(1,2) check_lightning_nonzero_amount [OF assms(3-8)]
  by (simp add: parse_bip21_URI_def bind_exc_def)

theorem lightning_amount_tolerance_witness:
  "parse_bip21_URI example_env ''bitcoin:addr1?amount=0.000001&lightning=lnbc101''
     = Inr [(''amount'', PyInt 100), (''lightning'', PyStr ''lnbc101''), (''address'', PyStr ''addr1'')]
   \<and> parse_bip21_URI example_env ''bitcoin:addr1?amount=0.000001&lightning=lnbc102''
     = Inl (InvalidBitcoinURI ''Inconsistent lightning field in bip21: amount'' NoArg)"
proof -
  let ?u1 = "''bitcoin:addr1?amount=0.000001&lightning=lnbc101''"
  let ?o1 = "[(''amount'', PyInt 100), (''lightning'', PyStr ''lnbc101''), (''address'', PyStr ''addr1'')]"
  let ?u2 = "''bitcoin:addr1?amount=0.000001&lightning=lnbc102''"
  let ?o2 = "[(''amount'', PyInt 100), (''lightning'', PyStr ''lnbc102''), (''address'', PyStr ''addr1'')]"
  have c1: "CHR '':'' \<in> set ?u1" and c2: "CHR '':'' \<in> set ?u2" by simp_all
  have f1: "bip21_decode_fields example_env ?u1 = Inr ?o1" by code_simp
  have f2: "bip21_decode_fields example_env ?u2 = Inr ?o2" by code_simp
  have a1: "map_of ?o1 ''amount'' = Some (PyInt 100)" and a2: "map_of ?o2 ''amount'' = Some (PyInt 100)"
    by simp_all
  have nz: "(100::int) \<noteq> 0" by simp
  have l1: "map_of ?o1 ''lightning'' = Some (PyStr ''lnbc101'')"
    and l2: "map_of ?o2 ''lightning'' = Some (PyStr ''lnbc102'')" by simp_all
  have d1: "lndecode example_env ''lnbc101''
             = Inr \<lparr>get_amount_sat = Some (Dec False 101 0), get_fallback_address = None\<rparr>"
    by code_simp
  have d2: "lndecode example_env ''lnbc102''
             = Inr \<lparr>get_amount_sat = Some (Dec False 102 0), get_fallback_address = None\<rparr>"
    by code_simp
  have g1: "get_amount_sat \<lparr>get_amount_sat = Some (Dec False 101 0), get_fallback_address = None\<rparr>
              = Some (Dec False 101 0)" by simp
  have g2: "get_amount_sat \<lparr>get_amount_sat = Some (Dec False 102 0), get_fallback_address = None\<rparr>
              = Some (Dec False 102 0)" by simp
  have i1: "dec_to_int (Dec False 101 0) = Inr 101" by (simp add: signed_def)
  have i2: "dec_to_int (Dec False 102 0) = Inr 102" by (simp add: signed_def)
  show ?thesis
    using lightning_amount_tolerance [OF c1 f1 a1 nz l1 d1 g1 i1]
          lightning_amount_tolerance [OF c2 f2 a2 nz l2 d2 g2 i2]
    by simp
qed

text \<open>
  The claim as the spec words it, on the amounts themselves, fails in three ways. The
  field \<open>amount=0.000000005\<close> is not zero but decodes to 0 sat, so an invoice of 500 sat
  is accepted unchecked. An invoice of 101.999 sat is compared as 101, so it is accepted
  with a field of 100 sat although the amounts differ by more than 1. And with equal
  amounts decoding still fails when the invoice has another fallback address.
\<close>

theorem lightning_amount_counterexample:
  "parse_bip21_URI example_env ''bitcoin:addr1?amount=0.000000005&lightning=lnbc500''
     = Inr [(''amount'', PyInt 0), (''lightning'', PyStr ''lnbc500''), (''address'', PyStr ''addr1'')]
   \<and> parse_bip21_URI (example_env_with (Some (Dec False 101999 (- 3))) None)
         ''bitcoin:addr1?amount=0.000001&lightning=lnbc1''
     = Inr [(''amount'', PyInt 100), (''lightning'', PyStr ''lnbc1''), (''address'', PyStr ''addr1'')]
   \<and> parse_bip21_URI (example_env_with (Some (Dec False 100 0)) (Some ''addr2''))
         ''bitcoin:addr1?amount=0.000001&lightning=lnbc1''
     = Inl (InvalidBitcoinURI ''Inconsistent lightning field in bip21: address'' NoArg)"
  by code_simp

section \<open>Properties of the batch parser\<close>

lemma parse_amount_string_is_max_spend:
  assumes "parse_amount e y = Inr (PyStr s)"
  shows "truthy_int (parse_max_spend e s)"
  using assms
  by (auto simp: parse_amount_def Let_def split: if_splits sum.splits)

lemma parsed_output_string_is_max_spend:
  assumes "parse_address_and_amount e l = Inr out" and "txo_value out = PyStr s"
  shows "truthy_int (parse_max_spend e s)"
proof -
  obtain x y where xy: "split_on CHR '','' l = [x, y]"
    using assms(1)
    by (auto simp: parse_address_and_amount_def split: list.splits)
  then obtain amount where "parse_amount e y = Inr amount" and "out = PartialTxOutput (parse_output e x) amount"
    using assms(1)
    by (auto simp: parse_address_and_amount_def bind_exc_def split: sum.splits)
  with assms(2) show ?thesis
    using parse_amount_string_is_max_spend by auto
qed

lemma multiline_loop_result:
  "\<exists>st'. multiline_loop e i lines st = Inr st'
         \<and> outputs st' = outputs st @ loop_outputs e lines
         \<and> errors st' = errors st @ loop_errors e i lines
         \<and> is_max st' = (is_max st \<or> (\<exists>out \<in> set (loop_outputs e lines). \<exists>s. txo_value out = PyStr s))"
proof (induction lines arbitrary: i st)
  case Nil
  then show ?case by (simp add: loop_outputs_def loop_errors_def)
next
  case (Cons l lines)
  show ?case
  proof (cases "parse_address_and_amount e l")
    case (Inl x)
    then show ?thesis
      using Cons.IH [of "Suc i" "st\<lparr>errors := errors st @ [PayToLineError (strip l) x i True]\<rparr>"]
      by (auto simp: loop_outputs_def loop_errors_def)
  next
    case (Inr out)
    show ?thesis
    proof (cases "txo_value out")
      case (PyStr s)
      then have "truthy_int (parse_max_spend e s)"
        using parsed_output_string_is_max_spend [OF Inr] by simp
      then show ?thesis
        using Inr PyStr Cons.IH [of "Suc i" "st\<lparr>outputs := outputs st @ [out], is_max := True\<rparr>"]
        by (auto simp: loop_outputs_def loop_errors_def)
    next
      case (PyInt n)
      then show ?thesis
        using Inr Cons.IH [of "Suc i" "st\<lparr>outputs := outputs st @ [out], total := total st + n\<rparr>"]
        by (auto simp: loop_outputs_def loop_errors_def)
    qed
  qed
qed

lemma parse_as_multiline_result:
  "parse_as_multiline e self txt =
     Inr (loop_outputs e (filter (\<lambda>i. i \<noteq> []) (split_on CHR 0x0A txt)),
          if length (filter (\<lambda>i. i \<noteq> []) (split_on CHR 0x0A txt)) > 1
             \<or> loop_outputs e (filter (\<lambda>i. i \<noteq> []) (split_on CHR 0x0A txt)) \<noteq> []
          then self\<lparr>error :=
                 (if loop_errors e 0 (filter (\<lambda>i. i \<noteq> []) (split_on CHR 0x0A txt)) \<noteq> []
                  then Some (ErrorLines
                          (loop_errors e 0 (filter (\<lambda>i. i \<noteq> []) (split_on CHR 0x0A txt))))
                  else None)\<rparr>
          else self)"
proof -
  obtain st' where
    "multiline_loop e 0 (filter (\<lambda>i. i \<noteq> []) (split_on CHR 0x0A txt))
       \<lparr>outputs = [], errors = [], total = 0, is_max = False\<rparr> = Inr st'"
    and "outputs st' = loop_outputs e (filter (\<lambda>i. i \<noteq> []) (split_on CHR 0x0A txt))"
    and "errors st' = loop_errors e 0 (filter (\<lambda>i. i \<noteq> []) (split_on CHR 0x0A txt))"
    using multiline_loop_result
            [of e 0 "filter (\<lambda>i. i \<noteq> []) (split_on CHR 0x0A txt)"
                "\<lparr>outputs = [], errors = [], total = 0, is_max = False\<rparr>"]
    by auto
  then show ?thesis
    by (simp add: parse_as_multiline_def Let_def bind_exc_def)
qed

text \<open>
  C5, evaluated. On the text \<open>addr1,1.0\<close>, \<open>badline\<close>, \<open>addr2,2.0\<close> (three lines, both
  addresses valid) the constructor yields the two outputs, one error for line 1, and the
  type \<open>multiline\<close>, as the claim says. But not every line that fails to parse is
  recorded. \<^verbatim>\<open>parse_output\<close> catches the exceptions of both of its attempts and, its last
  statement \<^verbatim>\<open>raise Exception("Invalid address or script.")\<close> being commented out, returns
  \<^verbatim>\<open>None\<close> for a destination that is neither an address nor a script: on the text
  \<open>addr1,1.0\<close>, \<open>garbage,2.0\<close> the second line becomes an output without a script, and
  no error is recorded. And the errors are stored only when the text has more than one
  line or some line parsed: for the single line \<open>badline\<close>, \<^verbatim>\<open>_parse_as_multiline\<close> leaves
  the identifier as it was.
\<close>

theorem unresolved_destination_is_not_recorded:
  "PaymentIdentifier_init example_env
         (''addr1,1.0'' @ [CHR 0x0A] @ ''badline'' @ [CHR 0x0A] @ ''addr2,2.0'')
       = Inr ((new_identifier (''addr1,1.0'' @ [CHR 0x0A] @ ''badline'' @ [CHR 0x0A] @ ''addr2,2.0''))
               \<lparr>pi_type := Some ''multiline'',
                error := Some (ErrorLines
                  [PayToLineError ''badline''
                     (Exc ''Exception''
                        ''expected two comma-separated values: (address, amount)'' NoArg)
                     1 True]),
                multiline_outputs := Some
                  [PartialTxOutput (Some ''script of addr1'') (PyInt 100000000),
                   PartialTxOutput (Some ''script of addr2'') (PyInt 200000000)]\<rparr>)
   \<and> is_address example_env ''garbage'' = False
   \<and> parse_output example_env ''garbage'' = None
   \<and> PaymentIdentifier_init example_env (''addr1,1.0'' @ [CHR 0x0A] @ ''garbage,2.0'')
       = Inr ((new_identifier (''addr1,1.0'' @ [CHR 0x0A] @ ''garbage,2.0''))
               \<lparr>pi_type := Some ''multiline'',
                error := None,
                multiline_outputs := Some
                  [PartialTxOutput (Some ''script of addr1'') (PyInt 100000000),
                   PartialTxOutput None (PyInt 200000000)]\<rparr>)
   \<and> parse_as_multiline example_env (new_identifier ''badline'') ''badline''
       = Inr ([], new_identifier ''badline'')"
  by code_simp

text \<open>
  C8, evaluated. On the two lines \<open>addr1,!\<close> and \<open>addr2,1\<close> the loop ends with
  \<open>is_max = True\<close> and \<open>total = 100000000\<close>, but \<^verbatim>\<open>_parse_as_multiline\<close> returns the
  outputs alone and stores nothing else: the identifier the constructor leaves differs
  from a fresh one in its type and its outputs only.
\<close>

theorem multiline_max_flag_is_dropped:
  "multiline_loop example_env 0 [''addr1,!'', ''addr2,1'']
       \<lparr>outputs = [], errors = [], total = 0, is_max = False\<rparr>
     = Inr \<lparr>outputs = [PartialTxOutput (Some ''script of addr1'') (PyStr ''!''),
                       PartialTxOutput (Some ''script of addr2'') (PyInt 100000000)],
             errors = [], total = 100000000, is_max = True\<rparr>
   \<and> parse_as_multiline example_env (new_identifier ''x'') (''addr1,!'' @ [CHR 0x0A] @ ''addr2,1'')
     = Inr ([PartialTxOutput (Some ''script of addr1'') (PyStr ''!''),
             PartialTxOutput (Some ''script of addr2'') (PyInt 100000000)],
            new_identifier ''x'')
   \<and> PaymentIdentifier_init example_env (''addr1,!'' @ [CHR 0x0A] @ ''addr2,1'')
     = Inr ((new_identifier (''addr1,!'' @ [CHR 0x0A] @ ''addr2,1''))
             \<lparr>pi_type := Some ''multiline'',
              multiline_outputs := Some
                [PartialTxOutput (Some ''script of addr1'') (PyStr ''!''),
                 PartialTxOutput (Some ''script of addr2'') (PyInt 100000000)]\<rparr>)"
  by code_simp

section \<open>Exceptions that leave the constructor\<close>

text \<open>
  C1, evaluated. The URI \<open>bitcoin:?time=abc\<close> is malformed: \<^verbatim>\<open>parse_bip21_URI\<close> raises
  \<^verbatim>\<open>InvalidBitcoinURI\<close>. The handler in \<^verbatim>\<open>parse\<close> then calls \<^verbatim>\<open>_\<close>, which the module never
  imports, so the constructor raises \<^verbatim>\<open>NameError\<close> instead of recording the error. The
  URI \<open>bitcoin://[\<close> makes \<^verbatim>\<open>urlparse\<close> raise \<^verbatim>\<open>ValueError\<close>, which no handler catches.
\<close>

theorem malformed_uri_raises:
  "parse_bip21_URI example_env ''bitcoin:?time=abc''
     = Inl (InvalidBitcoinURI ''failed to parse 'time' field: {}''
              (ReprExc (Exc ''ValueError'' ''invalid literal for int() with base 10: {}''
                          (ReprStr ''abc''))))
   \<and> PaymentIdentifier_init example_env ''bitcoin:?time=abc'' = Inl (unbound_name ''_'')
   \<and> PaymentIdentifier_init example_env ''bitcoin://['' = Inl (LibExc ''ValueError'')"
  by code_simp

section \<open>Repeated keys\<close>

text \<open>
  C6, evaluated. In \<open>bitcoin:addr1?amount=&amount=1\<close> the key \<open>amount\<close> stands twice, but
  \<^verbatim>\<open>parse_qs\<close> drops the field with the blank value before the duplicates are counted:
  decoding succeeds with the amount of the second field. With two values that are not
  blank the same key is refused.
\<close>

theorem repeated_key_with_blank_value_is_accepted:
  "parse_bip21_URI example_env ''bitcoin:addr1?amount=&amount=1''
     = Inr [(''amount'', PyInt 100000000), (''address'', PyStr ''addr1'')]
   \<and> parse_bip21_URI example_env ''bitcoin:addr1?amount=2&amount=1''
     = Inl (InvalidBitcoinURI ''Duplicate Key: {}'' (ReprStr ''amount''))"
  by code_simp

section \<open>The round trip of a URI\<close>

subsection \<open>Digits\<close>

lemma digit_val_digit: "k < 10 \<Longrightarrow> digit_val (''0123456789'' ! k) = k"
proof -
  assume "k < 10"
  then have "k \<in> {0,1,2,3,4,5,6,7,8,9}" by auto
  then show ?thesis by (auto simp: digit_val_def)
qed

lemma is_digit_digit: "k < 10 \<Longrightarrow> is_digit (''0123456789'' ! k)"
proof -
  assume "k < 10"
  then have "k \<in> {0,1,2,3,4,5,6,7,8,9}" by auto
  then show ?thesis by (auto simp: is_digit_def)
qed

lemma nat_of_digits_snoc: "nat_of_digits (xs @ [c]) = 10 * nat_of_digits xs + digit_val c"
  by (simp add: nat_of_digits_def)

lemma nat_of_digits_append:
  "nat_of_digits (xs @ ys) = nat_of_digits xs * 10 ^ length ys + nat_of_digits ys"
proof (induction ys rule: rev_induct)
  case Nil
  then show ?case by (simp add: nat_of_digits_def)
next
  case (snoc y ys)
  have "nat_of_digits (xs @ ys @ [y]) = 10 * nat_of_digits (xs @ ys) + digit_val y"
    using nat_of_digits_snoc [of "xs @ ys" y] by simp
  then show ?case
    using snoc nat_of_digits_snoc [of ys y] by (simp add: algebra_simps)
qed

declare str_of_nat.simps [simp del]
declare ndigits.simps [simp del]

lemma nat_of_digits_str_of_nat: "nat_of_digits (str_of_nat n) = n"
proof (induction n rule: str_of_nat.induct)
  case (1 n)
  show ?case
  proof (cases "n < 10")
    case True
    then show ?thesis
      by (subst str_of_nat.simps) (simp add: nat_of_digits_def digit_val_digit)
  next
    case False
    then show ?thesis
      using 1 by (subst str_of_nat.simps) (simp add: nat_of_digits_snoc digit_val_digit)
  qed
qed

lemma digits_str_of_nat: "list_all is_digit (str_of_nat n)"
proof (induction n rule: str_of_nat.induct)
  case (1 n)
  show ?case
  proof (cases "n < 10")
    case True
    then show ?thesis by (subst str_of_nat.simps) (simp add: is_digit_digit)
  next
    case False
    then show ?thesis using 1 by (subst str_of_nat.simps) (simp add: is_digit_digit)
  qed
qed

lemma str_of_nat_not_Nil: "str_of_nat n \<noteq> []"
  by (subst str_of_nat.simps) simp

lemma length_pad_digits: "length (pad_digits k m) = k"
  by (induction k arbitrary: m) simp_all

lemma digits_pad_digits: "list_all is_digit (pad_digits k m)"
  by (induction k arbitrary: m) (simp_all add: is_digit_digit)

lemma nat_of_digits_pad_digits: "nat_of_digits (pad_digits k m) = m mod 10 ^ k"
proof (induction k arbitrary: m)
  case 0
  then show ?case by (simp add: nat_of_digits_def)
next
  case (Suc k)
  have "m mod 10 ^ Suc k = 10 * (m div 10 mod 10 ^ k) + m mod 10"
    by (simp add: mod_mult2_eq)
  then show ?case
    using Suc [of "m div 10"] by (simp add: nat_of_digits_snoc digit_val_digit)
qed

lemma nat_of_digits_zeros: "nat_of_digits (replicate j CHR ''0'') = 0"
proof (induction j)
  case 0
  then show ?case by (simp add: nat_of_digits_def)
next
  case (Suc j)
  have "replicate (Suc j) CHR ''0'' = replicate j CHR ''0'' @ [CHR ''0'']"
    by (simp add: replicate_append_same)
  then have "nat_of_digits (replicate (Suc j) CHR ''0'')
               = 10 * nat_of_digits (replicate j CHR ''0'') + digit_val CHR ''0''"
    by (simp only: nat_of_digits_snoc)
  then show ?case
    using Suc by (simp add: digit_val_def)
qed

lemma rstrip_char_decompose:
  "\<exists>j. s = rstrip_char c s @ replicate j c \<and> (rstrip_char c s = [] \<or> last (rstrip_char c s) \<noteq> c)"
proof (induction s rule: rev_induct)
  case Nil
  then show ?case by (simp add: rstrip_char_def)
next
  case (snoc x xs)
  show ?case
  proof (cases "x = c")
    case True
    then have "rstrip_char c (xs @ [x]) = rstrip_char c xs"
      by (simp add: rstrip_char_def)
    moreover obtain j where "xs = rstrip_char c xs @ replicate j c"
      and "rstrip_char c xs = [] \<or> last (rstrip_char c xs) \<noteq> c"
      using snoc by blast
    ultimately show ?thesis
      using True by (metis append.assoc replicate_append_same replicate_Suc)
  next
    case False
    then have "rstrip_char c (xs @ [x]) = xs @ [x]"
      by (simp add: rstrip_char_def)
    then show ?thesis
      using False by (metis append_Nil2 last_snoc replicate_0)
  qed
qed

subsection \<open>The plain rendering of an amount\<close>

lemma is_digit_cases: "is_digit c \<Longrightarrow> c \<in> set ''0123456789''"
  by (simp add: is_digit_def)

lemma lower_char_not_upper: "\<not> is_upper c \<Longrightarrow> lower_char c = c"
  by (simp add: lower_char_def is_upper_def map_of_zip_is_None)

lemma digit_not_upper: "is_digit c \<Longrightarrow> \<not> is_upper c"
  unfolding is_digit_def is_upper_def by auto

lemma digit_not_special:
  assumes "is_digit c"
  shows "c \<notin> hd ` (set whitespace \<union> set (map rev whitespace))" and "c \<noteq> CHR ''_''" and "c \<noteq> CHR ''-''" and "c \<noteq> CHR ''+''"
    and "c \<noteq> CHR ''.''" and "lower_char c = c" and "c \<noteq> CHR ''i''" and "c \<noteq> CHR ''n''"
    and "c \<noteq> CHR ''s''" and "c \<noteq> CHR ''X''"
proof -
  have "hd ` (set whitespace \<union> set (map rev whitespace))
          = {CHR 0x09, CHR 0x0A, CHR 0x0B, CHR 0x0C, CHR 0x0D, CHR 0x1C, CHR 0x1D, CHR 0x1E,
             CHR 0x1F, CHR 0x20, CHR 0xC2, CHR 0xE1, CHR 0xE2, CHR 0xE3, CHR 0x85, CHR 0xA0,
             CHR 0x80, CHR 0x81, CHR 0x82, CHR 0x83, CHR 0x84, CHR 0x86, CHR 0x87, CHR 0x88,
             CHR 0x89, CHR 0x8A, CHR 0xA8, CHR 0xA9, CHR 0xAF, CHR 0x9F}"
    unfolding whitespace_def by (simp add: insert_commute)
  then show "c \<notin> hd ` (set whitespace \<union> set (map rev whitespace))"
    using assms unfolding is_digit_def by auto
  show "c \<noteq> CHR ''_''" using assms unfolding is_digit_def by auto
  show "c \<noteq> CHR ''-''" using assms unfolding is_digit_def by auto
  show "c \<noteq> CHR ''+''" using assms unfolding is_digit_def by auto
  show "c \<noteq> CHR ''.''" using assms unfolding is_digit_def by auto
  show "lower_char c = c" using assms by (intro lower_char_not_upper digit_not_upper)
  show "c \<noteq> CHR ''i''" using assms unfolding is_digit_def by auto
  show "c \<noteq> CHR ''n''" using assms unfolding is_digit_def by auto
  show "c \<noteq> CHR ''s''" using assms unfolding is_digit_def by auto
  show "c \<noteq> CHR ''X''" using assms unfolding is_digit_def by auto
qed

lemma lower_char_point: "lower_char CHR ''.'' = CHR ''.''"
  by (simp add: lower_char_def)

lemma rstrip_char_append:
  "rstrip_char c (xs @ ys) = (if rstrip_char c ys = [] then rstrip_char c xs else xs @ rstrip_char c ys)"
  by (auto simp: rstrip_char_def dropWhile_append)

lemma rstrip_char_noop: "s \<noteq> [] \<Longrightarrow> last s \<noteq> c \<Longrightarrow> rstrip_char c s = s"
  by (cases s rule: rev_cases) (simp_all add: rstrip_char_def)

lemma ndigits_le: "0 < k \<Longrightarrow> n < 10 ^ k \<Longrightarrow> ndigits n \<le> k"
proof (induction k arbitrary: n)
  case 0
  then show ?case by simp
next
  case (Suc k)
  show ?case
  proof (cases "n < 10")
    case True
    then show ?thesis by (subst ndigits.simps) simp
  next
    case False
    then have k: "0 < k" using Suc.prems by (cases k) auto
    have "n div 10 < 10 ^ k" using Suc.prems by auto
    then have "ndigits (n div 10) \<le> k" using Suc.IH k by blast
    then show ?thesis using False by (subst ndigits.simps) simp
  qed
qed

lemma format_satoshis_plain_shape:
  assumes "0 \<le> x" and "x < 10 ^ 28"
  shows "format_satoshis_plain x =
           plain_number (str_of_nat (nat x div 10 ^ 8))
             (rstrip_char CHR ''0'' (pad_digits 8 (nat x mod 10 ^ 8)))"
proof -
  let ?a = "nat x"
  let ?I = "str_of_nat (?a div 10 ^ 8)"
  let ?P = "pad_digits 8 (?a mod 10 ^ 8)"
  let ?F = "rstrip_char CHR ''0'' ?P"
  have a: "?a < 10 ^ 28" using assms by (simp add: nat_less_iff)
  have nd: "ndigits ?a \<le> 28" using ndigits_le [of 28 ?a] a by simp
  then have k: "ndigits ?a - dec_prec = 0" by (simp add: dec_prec_def)
  have r: "round_half_even 0 ?a = ?a" by (simp add: round_half_even_def)
  have abs: "nat \<bar>x\<bar> = ?a" using assms by simp
  have f: "format_satoshis_plain x =
             rstrip_char CHR ''.'' (rstrip_char CHR ''0'' (?I @ ''.'' @ ?P))"
    using assms(1) nd by (simp add: format_satoshis_plain_def Let_def abs k r dec_prec_def)
  have Idig: "list_all is_digit ?I" by (rule digits_str_of_nat)
  have Ine: "?I \<noteq> []" by (rule str_of_nat_not_Nil)
  then have lastI: "is_digit (last ?I)" using Idig by (simp add: list_all_iff)
  obtain j where P: "?P = ?F @ replicate j CHR ''0''" and F: "?F = [] \<or> last ?F \<noteq> CHR ''0''"
    using rstrip_char_decompose [of ?P "CHR ''0''"] by blast
  have Pdig: "list_all is_digit ?P" by (rule digits_pad_digits)
  have Fdig: "list_all is_digit ?F"
  proof -
    have "list_all is_digit (?F @ replicate j CHR ''0'')" using Pdig P by simp
    then show ?thesis by simp
  qed
  have s1: "rstrip_char CHR ''0'' (?I @ ''.'' @ ?P) = (?I @ ''.'') @ ?F"
  proof -
    have "rstrip_char CHR ''0'' (?I @ ''.'') = ?I @ ''.''"
      by (rule rstrip_char_noop) simp_all
    then show ?thesis
      using rstrip_char_append [of "CHR ''0''" "?I @ ''.''" ?P] by simp
  qed
  show ?thesis
  proof (cases "?F = []")
    case True
    have "rstrip_char CHR ''.'' (?I @ ''.'') = rstrip_char CHR ''.'' ?I"
      using rstrip_char_append [of "CHR ''.''" ?I "''.''"] by (simp add: rstrip_char_def)
    also have "\<dots> = ?I"
      using Ine lastI digit_not_special(5) by (intro rstrip_char_noop) auto
    finally show ?thesis using f s1 True by (simp add: plain_number_def)
  next
    case False
    then have "is_digit (last ?F)" using Fdig by (simp add: list_all_iff)
    then have lF: "last ?F \<noteq> CHR ''.''" by (rule digit_not_special(5))
    have "last ((?I @ ''.'') @ ?F) = last ?F" using False by (rule last_appendR)
    then have l: "last ((?I @ ''.'') @ ?F) \<noteq> CHR ''.''" using lF by simp
    have ne: "(?I @ ''.'') @ ?F \<noteq> []" by simp
    have "rstrip_char CHR ''.'' ((?I @ ''.'') @ ?F) = (?I @ ''.'') @ ?F"
      using ne l by (rule rstrip_char_noop)
    then show ?thesis using f s1 False by (simp add: plain_number_def)
  qed
qed

lemma space_len_other:
  assumes "[] \<notin> set ws" and "c \<notin> hd ` set ws"
  shows "space_len ws (c # r) = 0"
proof -
  have "\<not> prefix w (c # r)" if "w \<in> set ws" for w
  proof
    assume p: "prefix w (c # r)"
    have "w \<noteq> []" using that assms(1) by auto
    then obtain x v where "w = x # v" by (cases w) auto
    then have "hd w = c" using p by simp
    then show False using that assms(2) by auto
  qed
  then have "find (\<lambda>w. prefix w (c # r)) ws = None"
    by (simp add: find_None_iff)
  then show ?thesis by (simp add: space_len_def)
qed

lemma strip_noop:
  assumes "s \<noteq> []"
    and "hd s \<notin> hd ` (set whitespace \<union> set (map rev whitespace))"
    and "last s \<notin> hd ` (set whitespace \<union> set (map rev whitespace))"
  shows "strip s = s"
proof -
  obtain x xs where s: "s = x # xs" using assms(1) by (cases s) auto
  have "space_len whitespace (x # xs) = 0"
    using assms(2) s whitespace_not_Nil by (intro space_len_other) auto
  then have l: "lstrip s = s" using s by (simp add: lstrip_def)
  obtain ys y where s2: "s = ys @ [y]" using assms(1) by (cases s rule: rev_cases) auto
  have "space_len (map rev whitespace) (y # rev ys) = 0"
    using assms(3) s2 whitespace_not_Nil by (intro space_len_other) auto
  then have "rstrip s = s" by (simp add: rstrip_def s2)
  then show ?thesis using l by (simp add: strip_def)
qed

lemma plain_number_chars:
  assumes "ip \<noteq> []" and "list_all is_digit ip" and "list_all is_digit fp"
  shows "plain_number ip fp \<noteq> []"
    and "is_digit (hd (plain_number ip fp))"
    and "is_digit (last (plain_number ip fp))"
    and "\<forall>c \<in> set (plain_number ip fp). is_digit c \<or> c = CHR ''.''"
proof -
  show "plain_number ip fp \<noteq> []" using assms(1) by (simp add: plain_number_def)
  show "is_digit (hd (plain_number ip fp))"
    using assms(1,2) by (cases ip) (auto simp: plain_number_def)
  show "is_digit (last (plain_number ip fp))"
    using assms by (auto simp: plain_number_def list_all_iff)
  show "\<forall>c \<in> set (plain_number ip fp). is_digit c \<or> c = CHR ''.''"
    using assms by (auto simp: plain_number_def list_all_iff)
qed

lemma dec_number_plain:
  assumes "ip \<noteq> []" and "list_all is_digit ip" and "list_all is_digit fp"
  shows "dec_number (plain_number ip fp) = Some (nat_of_digits (ip @ fp), - int (length fp))"
proof (cases "fp = []")
  case True
  have tk: "takeWhile is_digit ip = ip" using assms(2) by (simp add: list_all_iff)
  have dr: "dropWhile is_digit ip = []" using assms(2) by (simp add: list_all_iff)
  show ?thesis
    using assms(1) by (simp add: dec_number_def plain_number_def Let_def True tk dr)
next
  case False
  have p: "\<not> is_digit CHR ''.''" by (simp add: is_digit_def)
  have ip: "\<forall>c \<in> set ip. is_digit c" using assms(2) by (simp add: list_all_iff)
  have t: "takeWhile is_digit (ip @ CHR ''.'' # fp) = ip"
    using ip p by (simp add: takeWhile_append2)
  have d: "dropWhile is_digit (ip @ CHR ''.'' # fp) = CHR ''.'' # fp"
    using ip p by (simp add: dropWhile_append2)
  have tf: "takeWhile is_digit fp = fp" using assms(3) by (simp add: list_all_iff)
  have df: "dropWhile is_digit fp = []" using assms(3) by (simp add: list_all_iff)
  show ?thesis
    using assms(1) by (simp add: dec_number_def plain_number_def Let_def False t d tf df)
qed

lemma py_Decimal_plain:
  assumes "ip \<noteq> []" and "list_all is_digit ip" and "list_all is_digit fp"
  shows "py_Decimal (plain_number ip fp)
           = Inr (Dec False (nat_of_digits (ip @ fp)) (- int (length fp)))"
proof -
  let ?s = "plain_number ip fp"
  note ch = plain_number_chars [OF assms]
  obtain d r where s: "?s = d # r" using ch(1) by (cases ?s) auto
  then have d: "is_digit d" using ch(2) by simp
  have st: "strip ?s = ?s"
    using ch(1) digit_not_special(1) [OF ch(2)] digit_not_special(1) [OF ch(3)]
    by (rule strip_noop)
  have "\<forall>c \<in> set ?s. c \<noteq> CHR ''_''"
    using ch(4) digit_not_special(2) by auto
  then have rm: "remove_char CHR ''_'' ?s = ?s"
    by (simp add: remove_char_def)
  have sg: "split_sign ?s = (False, ?s)"
    using digit_not_special(3,4) [OF d] by (simp add: s split_sign_def)
  have "\<forall>c \<in> set ?s. lower_char c = c"
    using ch(4) digit_not_special(6) lower_char_point by auto
  then have lw: "lower ?s = ?s"
    by (simp add: lower_def map_idI)
  have n1: "?s \<noteq> ''inf''" and n2: "?s \<noteq> ''infinity''"
    using digit_not_special(7) [OF d] by (auto simp: s)
  have n3: "\<not> prefix ''nan'' ?s" and n4: "\<not> prefix ''snan'' ?s"
    using digit_not_special(8,9) [OF d] by (auto simp: s)
  show ?thesis
    using dec_number_plain [OF assms]
    by (simp add: py_Decimal_def st rm sg lw n1 n2 n3 n4)
qed

lemma match_amount_X_plain:
  assumes "ip \<noteq> []" and "list_all is_digit ip" and "list_all is_digit fp"
  shows "match_amount_X (plain_number ip fp) = None"
proof -
  have dw: "dropWhile (\<lambda>c. is_digit c \<or> c = CHR ''.'') (plain_number ip fp) = []"
    using plain_number_chars(4) [OF assms] by simp
  show ?thesis by (simp add: match_amount_X_def Let_def dw)
qed

lemma ndigits_pos: "0 < ndigits n"
  by (subst ndigits.simps) simp

lemma dec_mul_COIN:
  assumes "c * 10 ^ 8 < 10 ^ 28" and "- 8 \<le> e" and "e \<le> 0"
  shows "dec_mul (Dec False c e) (dec_of_int COIN) = Inr (Dec False (c * 10 ^ 8) e)"
proof (cases "c = 0")
  case True
  then show ?thesis
    using assms(2,3)
    by (simp add: dec_of_int_def COIN_def dec_fix_def dec_Etiny_def dec_Emax_def dec_prec_def)
next
  case False
  have nd: "ndigits (c * 10 ^ 8) \<le> 28"
    using ndigits_le [of 28 "c * 10 ^ 8"] assms(1) by simp
  have f: "dec_fix False (c * 10 ^ 8) e = Inr (Dec False (c * 10 ^ 8) e)"
    using False nd assms(2,3) ndigits_pos [of "c * 10 ^ 8"]
    by (simp add: dec_fix_def Let_def dec_Etiny_def dec_Emax_def dec_Etop_def dec_prec_def)
  show ?thesis
    using f by (simp add: dec_of_int_def COIN_def)
qed

subsection \<open>The amount field decodes to the amount that was rendered\<close>

lemma bip21_amount_format:
  assumes "0 \<le> n" and "n \<le> TOTAL_COIN_SUPPLY_LIMIT_IN_BTC * COIN"
  shows "bip21_amount (format_satoshis_plain n) = Inr n"
proof -
  let ?a = "nat n"
  let ?I = "str_of_nat (?a div 10 ^ 8)"
  let ?P = "pad_digits 8 (?a mod 10 ^ 8)"
  let ?F = "rstrip_char CHR ''0'' ?P"
  have cap: "n \<le> 2100000000000000"
    using assms(2) by (simp add: TOTAL_COIN_SUPPLY_LIMIT_IN_BTC_def COIN_def)
  then have n28: "n < 10 ^ 28" by simp
  have a: "?a \<le> 2100000000000000" using cap assms(1) by simp
  have shape: "format_satoshis_plain n = plain_number ?I ?F"
    using assms(1) n28 by (rule format_satoshis_plain_shape)
  have Ine: "?I \<noteq> []" by (rule str_of_nat_not_Nil)
  have Idig: "list_all is_digit ?I" by (rule digits_str_of_nat)
  obtain j where P: "?P = ?F @ replicate j CHR ''0''"
    using rstrip_char_decompose [of ?P "CHR ''0''"] by blast
  have "list_all is_digit (?F @ replicate j CHR ''0'')"
    using digits_pad_digits [of 8 "?a mod 10 ^ 8"] P by simp
  then have Fdig: "list_all is_digit ?F" by simp
  have "length (?F @ replicate j CHR ''0'') = 8"
    using length_pad_digits [of 8 "?a mod 10 ^ 8"] P by simp
  then have len: "length ?F + j = 8" by simp
  define c where "c = nat_of_digits (?I @ ?F)"
  define L where "L = length ?F"
  have Lj: "L + j = 8" using len by (simp add: L_def)
  have "nat_of_digits (?I @ ?P) = (?a div 10 ^ 8) * 10 ^ 8 + ?a mod 10 ^ 8"
    by (simp add: nat_of_digits_append nat_of_digits_str_of_nat nat_of_digits_pad_digits
          length_pad_digits)
  then have v1: "nat_of_digits (?I @ ?P) = ?a" by simp
  have "nat_of_digits (?I @ ?F @ replicate j CHR ''0'') = c * 10 ^ j"
    using nat_of_digits_append [of "?I @ ?F" "replicate j CHR ''0''"]
    by (simp add: c_def nat_of_digits_zeros)
  then have cj: "c * 10 ^ j = ?a" using v1 P by simp
  have "c * 10 ^ 8 = c * 10 ^ j * 10 ^ L"
    using Lj by (metis mult.assoc power_add add.commute)
  then have c8: "c * 10 ^ 8 = ?a * 10 ^ L" using cj by simp
  have L8: "L \<le> 8" using Lj by simp
  have "(10::nat) ^ L \<le> 10 ^ 8" using L8 by (intro power_increasing) auto
  then have "?a * 10 ^ L \<le> 2100000000000000 * 10 ^ 8"
    using a by (intro mult_mono) auto
  then have small: "c * 10 ^ 8 < 10 ^ 28" using c8 by simp
  have dec: "py_Decimal (plain_number ?I ?F) = Inr (Dec False c (- int L))"
    using py_Decimal_plain [OF Ine Idig Fdig] by (simp add: c_def L_def)
  have "dec_mul (Dec False c (- int L)) (dec_of_int COIN) = Inr (Dec False (c * 10 ^ 8) (- int L))"
    using small L8 by (intro dec_mul_COIN) auto
  then have mul: "dec_mul (Dec False c (- int L)) (dec_of_int COIN)
                    = Inr (Dec False (c * 100000000) (- int L))"
    by simp
  have ic8: "int c * 100000000 = n * 10 ^ L"
  proof -
    have "int (c * 10 ^ 8) = int (?a * 10 ^ L)" using c8 by simp
    then show ?thesis using assms(1) by simp
  qed
  have gt: "dec_gt_int (Dec False (c * 100000000) (- int L)) (TOTAL_COIN_SUPPLY_LIMIT_IN_BTC * COIN)
              = Inr False"
  proof (cases "L = 0")
    case True
    then show ?thesis
      using ic8 cap by (simp add: signed_def TOTAL_COIN_SUPPLY_LIMIT_IN_BTC_def COIN_def)
  next
    case False
    have "n * 10 ^ L \<le> 2100000000000000 * 10 ^ L"
      using cap by (intro mult_right_mono) auto
    then show ?thesis
      using False ic8 by (simp add: signed_def TOTAL_COIN_SUPPLY_LIMIT_IN_BTC_def COIN_def)
  qed
  have ti: "dec_to_int (Dec False (c * 100000000) (- int L)) = Inr n"
  proof (cases "L = 0")
    case True
    then show ?thesis using ic8 by (simp add: signed_def)
  next
    case False
    have "c * 10 ^ 8 div 10 ^ L = ?a" using c8 by simp
    then show ?thesis using False assms(1) by (simp add: signed_def)
  qed
  have m: "match_amount_X (format_satoshis_plain n) = None"
    using match_amount_X_plain [OF Ine Idig Fdig] by (simp only: shape)
  have d: "py_Decimal (format_satoshis_plain n) = Inr (Dec False c (- int L))"
    using dec by (simp only: shape)
  show ?thesis
    unfolding bip21_amount_def m d
    by (simp add: bind_exc_def mul gt ti del: dec_gt_int.simps dec_to_int.simps)
qed

subsection \<open>Quoting and the query string\<close>

lemma unquote_to_bytes_Cons:
  assumes "c \<noteq> CHR ''%''"
  shows "unquote_to_bytes (c # s) = c # unquote_to_bytes s"
proof (cases s)
  case Nil
  then show ?thesis by simp
next
  case (Cons a t)
  then show ?thesis using assms by (cases t) simp_all
qed

lemma unquote_to_bytes_percent:
  "is_hexdigit a \<Longrightarrow> is_hexdigit b \<Longrightarrow>
   unquote_to_bytes (CHR ''%'' # a # b # s) = char_of (16 * hexval a + hexval b) # unquote_to_bytes s"
  by simp

lemma unquote_to_bytes_no_percent: "CHR ''%'' \<notin> set s \<Longrightarrow> unquote_to_bytes s = s"
proof (induction s)
  case Nil
  then show ?case by simp
next
  case (Cons a s)
  then have "a \<noteq> CHR ''%''" and "unquote_to_bytes s = s" by auto
  then show ?case using unquote_to_bytes_Cons [of a s] by simp
qed

lemma hexdigit_props:
  assumes "k < 16"
  shows "is_hexdigit (hexdigit k)" and "hexval (hexdigit k) = k" and "is_alnum (hexdigit k)"
proof -
  have k: "k \<in> {0,1,2,3,4,5,6,7,8,9,10,11,12,13,14,15}" using assms by (simp add: less_Suc_eq numeral_eq_Suc)
  show "is_hexdigit (hexdigit k)" using k by (auto simp: hexdigit_def is_hexdigit_def)
  show "hexval (hexdigit k) = k" using k by (auto simp: hexdigit_def hexval_def)
  show "is_alnum (hexdigit k)"
    using k by (auto simp: hexdigit_def is_alnum_def is_alpha_def is_upper_def is_digit_def)
qed

lemma of_char_div_16: "of_char (c::char) div 16 < (16::nat)"
proof -
  have "of_char c mod 256 = (of_char c :: nat)" by (rule of_char_mod_256)
  then have "of_char c < (256::nat)" by (metis mod_less_divisor zero_less_numeral)
  then have "of_char c < 16 * (16::nat)" by simp
  then show ?thesis by (rule less_mult_imp_div_less)
qed

lemma char_of_hex_pair:
  "char_of (16 * hexval (hexdigit (of_char c div 16)) + hexval (hexdigit (of_char c mod 16))) = c"
proof -
  have "16 * hexval (hexdigit (of_char c div 16)) + hexval (hexdigit (of_char c mod 16))
          = (of_char c :: nat)"
    using hexdigit_props(2) [OF of_char_div_16 [of c]] hexdigit_props(2) [of "of_char c mod 16"]
    by simp
  then show ?thesis by simp
qed

lemma always_safe_not_percent: "always_safe c \<Longrightarrow> c \<noteq> CHR ''%''"
  unfolding always_safe_def is_alnum_def is_alpha_def is_upper_def is_lower_def is_digit_def
  by auto

lemma unquote_quote: "unquote (quote s) = s"
proof (induction s)
  case Nil
  then show ?case by (simp add: unquote_def quote_def)
next
  case (Cons c s)
  show ?case
  proof (cases "always_safe c \<or> c = CHR ''/''")
    case True
    then have "c \<noteq> CHR ''%''" using always_safe_not_percent by auto
    then show ?thesis
      using True Cons
      by (simp add: unquote_def quote_def unquote_to_bytes_Cons del: unquote_to_bytes.simps)
  next
    case False
    have h1: "is_hexdigit (hexdigit (of_char c div 16))"
      by (rule hexdigit_props(1) [OF of_char_div_16])
    have h2: "is_hexdigit (hexdigit (of_char c mod 16))"
      by (rule hexdigit_props(1)) simp
    show ?thesis
      using False Cons unquote_to_bytes_percent [OF h1 h2, of "quote s"] char_of_hex_pair [of c]
      by (simp add: unquote_def quote_def del: unquote_to_bytes.simps)
  qed
qed

lemma notin_by_class: "\<forall>x\<in>set s. P x \<Longrightarrow> \<not> P c \<Longrightarrow> c \<notin> set s"
  by auto

lemma partition_at_notin: "c \<notin> set s \<Longrightarrow> partition_at c s = (s, None)"
proof -
  assume c: "c \<notin> set s"
  have t: "takeWhile (\<lambda>x. x \<noteq> c) s = s" using c by (intro takeWhile_eq_all_conv [THEN iffD2]) auto
  have d: "dropWhile (\<lambda>x. x \<noteq> c) s = []" using c by (intro dropWhile_eq_Nil_conv [THEN iffD2]) auto
  show ?thesis by (simp add: partition_at_def t d)
qed

lemma partition_at_append: "c \<notin> set s \<Longrightarrow> partition_at c (s @ c # t) = (s, Some t)"
proof -
  assume c: "c \<notin> set s"
  have t: "takeWhile (\<lambda>x. x \<noteq> c) (s @ c # t) = s"
    using c by (induction s) auto
  have d: "dropWhile (\<lambda>x. x \<noteq> c) (s @ c # t) = c # t"
    using c by (induction s) auto
  show ?thesis by (simp only: partition_at_def t d list.case)
qed

lemma split_on_notin: "c \<notin> set s \<Longrightarrow> split_on c s = [s]"
  by (induction s) auto

lemma split_on_append: "c \<notin> set s \<Longrightarrow> split_on c (s @ c # t) = s # split_on c t"
  by (induction s) auto

lemma map_plus_noop: "CHR ''+'' \<notin> set s \<Longrightarrow> map (\<lambda>c. if c = CHR ''+'' then CHR '' '' else c) s = s"
  by (induction s) auto

lemma parse_qsl_last:
  assumes "CHR ''&'' \<notin> set k" and "CHR ''='' \<notin> set k" and "CHR ''+'' \<notin> set k"
    and "CHR ''%'' \<notin> set k"
    and "CHR ''&'' \<notin> set v" and "CHR ''+'' \<notin> set v" and "v \<noteq> []"
  shows "parse_qsl (k @ CHR ''='' # v) = [(k, unquote v)]"
proof -
  have "CHR ''&'' \<notin> set (k @ CHR ''='' # v)" using assms by simp
  then have s: "split_on CHR ''&'' (k @ CHR ''='' # v) = [k @ CHR ''='' # v]"
    by (rule split_on_notin)
  have p: "partition_at CHR ''='' (k @ CHR ''='' # v) = (k, Some v)"
    using assms(2) by (rule partition_at_append)
  have uk: "unquote k = k" using assms(4) by (simp add: unquote_def unquote_to_bytes_no_percent)
  show ?thesis
    unfolding parse_qsl_def s
    using assms(7) by (simp add: p map_plus_noop [OF assms(3)] map_plus_noop [OF assms(6)] uk)
qed

lemma parse_qsl_field:
  assumes "CHR ''&'' \<notin> set k" and "CHR ''='' \<notin> set k" and "CHR ''+'' \<notin> set k"
    and "CHR ''%'' \<notin> set k"
    and "CHR ''&'' \<notin> set v" and "CHR ''+'' \<notin> set v" and "v \<noteq> []"
  shows "parse_qsl (k @ CHR ''='' # v @ CHR ''&'' # r) = (k, unquote v) # parse_qsl r"
proof -
  have "CHR ''&'' \<notin> set (k @ CHR ''='' # v)" using assms by simp
  then have "split_on CHR ''&'' ((k @ CHR ''='' # v) @ CHR ''&'' # r)
               = (k @ CHR ''='' # v) # split_on CHR ''&'' r"
    by (rule split_on_append)
  then have s: "split_on CHR ''&'' (k @ CHR ''='' # v @ CHR ''&'' # r)
               = (k @ CHR ''='' # v) # split_on CHR ''&'' r"
    by simp
  have p: "partition_at CHR ''='' (k @ CHR ''='' # v) = (k, Some v)"
    using assms(2) by (rule partition_at_append)
  have uk: "unquote k = k" using assms(4) by (simp add: unquote_def unquote_to_bytes_no_percent)
  show ?thesis
    unfolding parse_qsl_def s
    using assms(7) by (simp add: p map_plus_noop [OF assms(3)] map_plus_noop [OF assms(6)] uk)
qed

lemma quote_chars: "\<forall>c\<in>set (quote s). always_safe c \<or> c = CHR ''/'' \<or> c = CHR ''%''"
proof -
  have "\<And>k. k < 16 \<Longrightarrow> always_safe (hexdigit k)"
    using hexdigit_props(3) by (simp add: always_safe_def)
  then have "always_safe (hexdigit (of_char c div 16))" "always_safe (hexdigit (of_char c mod 16))"
    for c :: char
    using of_char_div_16 [of c] by simp_all
  then show ?thesis by (auto simp: quote_def split: if_splits)
qed

lemma quote_not_Nil: "s \<noteq> [] \<Longrightarrow> quote s \<noteq> []"
  by (cases s) (simp_all add: quote_def)

lemma quote_free_of:
  "CHR ''&'' \<notin> set (quote s)" "CHR ''+'' \<notin> set (quote s)" "CHR ''#'' \<notin> set (quote s)"
  "CHR 0x09 \<notin> set (quote s)" "CHR 0x0A \<notin> set (quote s)" "CHR 0x0D \<notin> set (quote s)"
  by (rule notin_by_class [OF quote_chars],
      simp add: always_safe_def is_alnum_def is_alpha_def is_upper_def is_lower_def is_digit_def)+

lemma plain_free_of:
  assumes "\<forall>c\<in>set f. is_digit c \<or> c = CHR ''.''"
  shows "CHR ''&'' \<notin> set f" "CHR ''+'' \<notin> set f" "CHR ''#'' \<notin> set f"
    "CHR 0x09 \<notin> set f" "CHR 0x0A \<notin> set f" "CHR 0x0D \<notin> set f" "CHR ''%'' \<notin> set f"
  by (rule notin_by_class [OF assms], simp add: is_digit_def)+

lemma alnum_free_of:
  assumes "list_all is_alnum a"
  shows "CHR ''?'' \<notin> set a" "CHR ''#'' \<notin> set a" "CHR '':'' \<notin> set a" "CHR ''/'' \<notin> set a"
    "CHR 0x09 \<notin> set a" "CHR 0x0A \<notin> set a" "CHR 0x0D \<notin> set a"
  by (rule notin_by_class [OF assms [unfolded list_all_iff]],
      simp add: is_alnum_def is_alpha_def is_upper_def is_lower_def is_digit_def)+

subsection \<open>The parts of the URI\<close>

lemma urlsplit_bitcoin:
  assumes a: "list_all is_alnum a"
    and q: "CHR 0x09 \<notin> set q" "CHR 0x0A \<notin> set q" "CHR 0x0D \<notin> set q" "CHR ''#'' \<notin> set q"
  shows "urlsplit e (''bitcoin:'' @ a @ CHR ''?'' # q)
           = Inr \<lparr>scheme = ''bitcoin'', netloc = [], path = a, query = q, fragment = []\<rparr>"
proof -
  let ?u = "''bitcoin:'' @ a @ CHR ''?'' # q"
  note fa = alnum_free_of [OF a]
  have d: "dropWhile is_c0_control_or_space ?u = ?u"
    by (simp add: is_c0_control_or_space_def)
  have "\<forall>c \<in> set ?u. c \<notin> set [CHR 0x09, CHR 0x0D, CHR 0x0A]"
    using fa(5,6,7) q(1,2,3) by auto
  then have f: "filter (\<lambda>c. c \<notin> set [CHR 0x09, CHR 0x0D, CHR 0x0A]) ?u = ?u"
    by (simp only: filter_id_conv)
  have u1: "filter (\<lambda>c. c \<notin> set [CHR 0x09, CHR 0x0D, CHR 0x0A])
              (dropWhile is_c0_control_or_space ?u) = ?u"
    by (simp only: d f)
  have sch: "takeWhile (\<lambda>c. c \<noteq> CHR '':'') ?u = ''bitcoin''"
    by simp
  have hs: "(CHR '':'' \<in> set ?u \<and> ''bitcoin'' \<noteq> [] \<and> is_alpha (hd ''bitcoin'')
             \<and> list_all scheme_char ''bitcoin'') = True"
    by (simp add: scheme_char_def is_alnum_def is_alpha_def is_lower_def)
  have dr: "drop (length ''bitcoin'' + 1) ?u = a @ CHR ''?'' # q"
    by simp
  have nn: "(take 2 (a @ CHR ''?'' # q) = ''//'') = False"
  proof (cases a)
    case Nil
    then show ?thesis by simp
  next
    case (Cons c r)
    then have "c \<noteq> CHR ''/''" using fa(4) by auto
    then show ?thesis using Cons by auto
  qed
  have "CHR ''#'' \<notin> set (a @ CHR ''?'' # q)" using fa(2) q(4) by simp
  then have p1: "partition_at CHR ''#'' (a @ CHR ''?'' # q) = (a @ CHR ''?'' # q, None)"
    by (rule partition_at_notin)
  have p2: "partition_at CHR ''?'' (a @ CHR ''?'' # q) = (a, Some q)"
    using fa(1) by (rule partition_at_append)
  have lw: "lower ''bitcoin'' = ''bitcoin''"
    by (simp add: lower_def lower_char_def)
  show ?thesis
    unfolding urlsplit_def Let_def u1 sch hs if_True dr nn if_False p1
    by (simp add: lw p2)
qed

lemma format_satoshis_plain_chars:
  assumes "0 \<le> n" and "n < 10 ^ 28"
  shows "format_satoshis_plain n \<noteq> []"
    and "\<forall>c \<in> set (format_satoshis_plain n). is_digit c \<or> c = CHR ''.''"
proof -
  let ?a = "nat n"
  let ?I = "str_of_nat (?a div 10 ^ 8)"
  let ?P = "pad_digits 8 (?a mod 10 ^ 8)"
  let ?F = "rstrip_char CHR ''0'' ?P"
  have shape: "format_satoshis_plain n = plain_number ?I ?F"
    using assms by (rule format_satoshis_plain_shape)
  have Ine: "?I \<noteq> []" by (rule str_of_nat_not_Nil)
  have Idig: "list_all is_digit ?I" by (rule digits_str_of_nat)
  obtain j where P: "?P = ?F @ replicate j CHR ''0''"
    using rstrip_char_decompose [of ?P "CHR ''0''"] by blast
  have "list_all is_digit (?F @ replicate j CHR ''0'')"
    using digits_pad_digits [of 8 "?a mod 10 ^ 8"] P by simp
  then have Fdig: "list_all is_digit ?F" by simp
  show "format_satoshis_plain n \<noteq> []"
    unfolding shape by (rule plain_number_chars(1) [OF Ine Idig Fdig])
  show "\<forall>c \<in> set (format_satoshis_plain n). is_digit c \<or> c = CHR ''.''"
    unfolding shape by (rule plain_number_chars(4) [OF Ine Idig Fdig])
qed

lemma parse_bip21_URI_amount:
  assumes us: "urlsplit e uri
                 = Inr \<lparr>scheme = ''bitcoin'', netloc = [], path = a, query = q, fragment = []\<rparr>"
    and colon: "CHR '':'' \<in> set uri"
    and qm: "CHR ''?'' \<notin> set a" and ne: "a \<noteq> []" and ad: "is_address e a"
    and pq: "parse_qs q = [(''amount'', [f])]"
    and amt: "bip21_amount f = Inr n"
  shows "parse_bip21_URI e uri = Inr [(''amount'', PyInt n), (''address'', PyStr a)]"
proof -
  have lw: "lower ''bitcoin'' = ''bitcoin''"
    by (simp add: lower_def lower_char_def)
  have aq: "bip21_address_and_query
              \<lparr>scheme = ''bitcoin'', netloc = [], path = a, query = q, fragment = []\<rparr>
            = Inr (a, [(''amount'', [f])])"
    using qm by (simp add: bip21_address_and_query_def pq)
  have sa: "bip21_set_address e a [(''amount'', PyStr f)]
              = Inr [(''amount'', PyStr f), (''address'', PyStr a)]"
    using ne ad by (simp add: bip21_set_address_def)
  have am: "bip21_set_amount [(''amount'', PyStr f), (''address'', PyStr a)]
              = Inr [(''amount'', PyInt n), (''address'', PyStr a)]"
    by (simp add: bip21_set_amount_def amt)
  have df: "bip21_decode_fields e uri = Inr [(''amount'', PyInt n), (''address'', PyStr a)]"
    by (simp add: bip21_decode_fields_def urlparse_def us bind_exc_def lw
          BITCOIN_BIP21_URI_SCHEME_def aq sa am bip21_set_memo_def bip21_set_int_def
          bip21_set_sig_def)
  show ?thesis
    using colon by (simp add: parse_bip21_URI_def df bind_exc_def bip21_check_lightning_def)
qed

lemma parse_bip21_URI_amount_message:
  assumes us: "urlsplit e uri
                 = Inr \<lparr>scheme = ''bitcoin'', netloc = [], path = a, query = q, fragment = []\<rparr>"
    and colon: "CHR '':'' \<in> set uri"
    and qm: "CHR ''?'' \<notin> set a" and ne: "a \<noteq> []" and ad: "is_address e a"
    and pq: "parse_qs q = [(''amount'', [f]), (''message'', [msg])]"
    and amt: "bip21_amount f = Inr n"
  shows "parse_bip21_URI e uri
           = Inr [(''amount'', PyInt n), (''message'', PyStr msg), (''address'', PyStr a),
                  (''memo'', PyStr msg)]"
proof -
  have lw: "lower ''bitcoin'' = ''bitcoin''"
    by (simp add: lower_def lower_char_def)
  have aq: "bip21_address_and_query
              \<lparr>scheme = ''bitcoin'', netloc = [], path = a, query = q, fragment = []\<rparr>
            = Inr (a, [(''amount'', [f]), (''message'', [msg])])"
    using qm by (simp add: bip21_address_and_query_def pq)
  have sa: "bip21_set_address e a [(''amount'', PyStr f), (''message'', PyStr msg)]
              = Inr [(''amount'', PyStr f), (''message'', PyStr msg), (''address'', PyStr a)]"
    using ne ad by (simp add: bip21_set_address_def)
  have am: "bip21_set_amount [(''amount'', PyStr f), (''message'', PyStr msg), (''address'', PyStr a)]
              = Inr [(''amount'', PyInt n), (''message'', PyStr msg), (''address'', PyStr a)]"
    by (simp add: bip21_set_amount_def amt)
  have df: "bip21_decode_fields e uri
              = Inr [(''amount'', PyInt n), (''message'', PyStr msg), (''address'', PyStr a),
                     (''memo'', PyStr msg)]"
    by (simp add: bip21_decode_fields_def urlparse_def us bind_exc_def lw
          BITCOIN_BIP21_URI_SCHEME_def aq sa am bip21_set_memo_def bip21_set_int_def
          bip21_set_sig_def)
  show ?thesis
    using colon by (simp add: parse_bip21_URI_def df bind_exc_def bip21_check_lightning_def)
qed

lemma parse_qs_amount:
  assumes "f \<noteq> []" and "\<forall>c \<in> set f. is_digit c \<or> c = CHR ''.''"
  shows "parse_qs (''amount'' @ CHR ''='' # f) = [(''amount'', [f])]"
proof -
  note pf = plain_free_of [OF assms(2)]
  have uf: "unquote f = f"
    using pf(7) by (simp add: unquote_def unquote_to_bytes_no_percent)
  have h: "parse_qsl (''amount'' @ CHR ''='' # f) = [(''amount'', unquote f)]"
    using pf(1,2) assms(1) by (intro parse_qsl_last) simp_all
  have "parse_qsl (''amount'' @ CHR ''='' # f) = [(''amount'', f)]"
    by (simp only: h uf)
  then show ?thesis
    unfolding parse_qs_def by simp
qed

lemma parse_qs_amount_message:
  assumes "f \<noteq> []" and "\<forall>c \<in> set f. is_digit c \<or> c = CHR ''.''" and "msg \<noteq> []"
  shows "parse_qs (''amount'' @ CHR ''='' # f @ CHR ''&'' # ''message'' @ CHR ''='' # quote msg)
           = [(''amount'', [f]), (''message'', [msg])]"
proof -
  note pf = plain_free_of [OF assms(2)]
  have uf: "unquote f = f"
    using pf(7) by (simp add: unquote_def unquote_to_bytes_no_percent)
  have l: "parse_qsl (''message'' @ CHR ''='' # quote msg) = [(''message'', unquote (quote msg))]"
    using quote_free_of(1,2) [of msg] quote_not_Nil [OF assms(3)] by (intro parse_qsl_last) simp_all
  have h: "parse_qsl (''amount'' @ CHR ''='' # f @ CHR ''&'' # ''message'' @ CHR ''='' # quote msg)
          = (''amount'', unquote f) # parse_qsl (''message'' @ CHR ''='' # quote msg)"
    using pf(1,2) assms(1) by (intro parse_qsl_field) simp_all
  have "parse_qsl (''amount'' @ CHR ''='' # f @ CHR ''&'' # ''message'' @ CHR ''='' # quote msg)
          = [(''amount'', f), (''message'', msg)]"
    by (simp only: h l uf unquote_quote)
  then show ?thesis
    unfolding parse_qs_def by simp
qed


text \<open>
  C7. For an address \<open>a\<close> that is valid, not empty and made of ASCII letters and digits,
  and an amount \<open>n\<close> from 0 to the supply cap (21 million whole units, \<open>COIN\<close> minor
  units each), decoding \<open>bitcoin:\<close> followed by \<open>a\<close>, \<open>?amount=\<close> and the plain rendering of
  \<open>n\<close> yields exactly the address \<open>a\<close> and the amount \<open>n\<close>. When moreover \<open>n\<close> is not 0
  and the message is not empty, \<^verbatim>\<open>create_bip21_uri\<close> returns the URI with the amount and
  the quoted message, and decoding it recovers the address, the amount and the message
  (which is also copied to \<open>memo\<close>). The message is any text.
\<close>

theorem bip21_round_trip:
  assumes ad: "is_address e a" and ne: "a \<noteq> []" and al: "list_all is_alnum a"
    and n0: "0 \<le> n" and cap: "n \<le> TOTAL_COIN_SUPPLY_LIMIT_IN_BTC * COIN"
  shows "parse_bip21_URI e (''bitcoin:'' @ a @ ''?amount='' @ format_satoshis_plain n)
           = Inr [(''amount'', PyInt n), (''address'', PyStr a)]
       \<and> (0 < n \<and> msg \<noteq> [] \<longrightarrow>
            create_bip21_uri e a (Some n) (Some msg) []
              = Inr (''bitcoin:'' @ a @ ''?amount='' @ format_satoshis_plain n
                       @ ''&message='' @ quote msg)
            \<and> parse_bip21_URI e (''bitcoin:'' @ a @ ''?amount='' @ format_satoshis_plain n
                                   @ ''&message='' @ quote msg)
              = Inr [(''amount'', PyInt n), (''message'', PyStr msg), (''address'', PyStr a),
                     (''memo'', PyStr msg)])"
proof -
  define f where "f = format_satoshis_plain n"
  have "n \<le> 2100000000000000"
    using cap by (simp add: TOTAL_COIN_SUPPLY_LIMIT_IN_BTC_def COIN_def)
  then have n28: "n < 10 ^ 28" by simp
  have fne: "f \<noteq> []" and fch: "\<forall>c \<in> set f. is_digit c \<or> c = CHR ''.''"
    using format_satoshis_plain_chars [OF n0 n28] by (simp_all add: f_def)
  note pf = plain_free_of [OF fch]
  note fa = alnum_free_of [OF al]
  have amt: "bip21_amount f = Inr n"
    unfolding f_def using n0 cap by (rule bip21_amount_format)
  define q1 where "q1 = ''amount'' @ CHR ''='' # f"
  define u1 where "u1 = ''bitcoin:'' @ a @ CHR ''?'' # q1"
  have q1free: "CHR 0x09 \<notin> set q1" "CHR 0x0A \<notin> set q1" "CHR 0x0D \<notin> set q1" "CHR ''#'' \<notin> set q1"
    using pf(3,4,5,6) by (simp_all add: q1_def)
  have us1: "urlsplit e u1
               = Inr \<lparr>scheme = ''bitcoin'', netloc = [], path = a, query = q1, fragment = []\<rparr>"
    unfolding u1_def using al q1free by (rule urlsplit_bitcoin)
  have c1: "CHR '':'' \<in> set u1" by (simp add: u1_def)
  have pq1: "parse_qs q1 = [(''amount'', [f])]"
    unfolding q1_def using fne fch by (rule parse_qs_amount)
  have r1: "parse_bip21_URI e u1 = Inr [(''amount'', PyInt n), (''address'', PyStr a)]"
    using us1 c1 fa(1) ne ad pq1 amt by (rule parse_bip21_URI_amount)
  have e1: "''bitcoin:'' @ a @ ''?amount='' @ format_satoshis_plain n = u1"
    by (simp add: u1_def q1_def f_def)
  have part1: "parse_bip21_URI e (''bitcoin:'' @ a @ ''?amount='' @ format_satoshis_plain n)
                 = Inr [(''amount'', PyInt n), (''address'', PyStr a)]"
    by (simp only: e1 r1)
  have part2: "create_bip21_uri e a (Some n) (Some msg) []
              = Inr (''bitcoin:'' @ a @ ''?amount='' @ format_satoshis_plain n
                       @ ''&message='' @ quote msg)
            \<and> parse_bip21_URI e (''bitcoin:'' @ a @ ''?amount='' @ format_satoshis_plain n
                                   @ ''&message='' @ quote msg)
              = Inr [(''amount'', PyInt n), (''message'', PyStr msg), (''address'', PyStr a),
                     (''memo'', PyStr msg)]"
    if pos: "0 < n" and mne: "msg \<noteq> []"
  proof -
    define q2 where "q2 = ''amount'' @ CHR ''='' # f @ CHR ''&'' # ''message'' @ CHR ''='' # quote msg"
    define u2 where "u2 = ''bitcoin:'' @ a @ CHR ''?'' # q2"
    have q2free: "CHR 0x09 \<notin> set q2" "CHR 0x0A \<notin> set q2" "CHR 0x0D \<notin> set q2"
        "CHR ''#'' \<notin> set q2"
      using pf(3,4,5,6) quote_free_of(3,4,5,6) [of msg] by (simp_all add: q2_def)
    have us2: "urlsplit e u2
                 = Inr \<lparr>scheme = ''bitcoin'', netloc = [], path = a, query = q2, fragment = []\<rparr>"
      unfolding u2_def using al q2free by (rule urlsplit_bitcoin)
    have c2: "CHR '':'' \<in> set u2" by (simp add: u2_def)
    have pq2: "parse_qs q2 = [(''amount'', [f]), (''message'', [msg])]"
      unfolding q2_def using fne fch mne by (rule parse_qs_amount_message)
    have r2: "parse_bip21_URI e u2
                = Inr [(''amount'', PyInt n), (''message'', PyStr msg), (''address'', PyStr a),
                       (''memo'', PyStr msg)]"
      using us2 c2 fa(1) ne ad pq2 amt by (rule parse_bip21_URI_amount_message)
    have e2: "''bitcoin:'' @ a @ ''?amount='' @ format_satoshis_plain n
                @ ''&message='' @ quote msg = u2"
      by (simp add: u2_def q2_def f_def)
    have qne: "quote msg \<noteq> []" using mne by (rule quote_not_Nil)
    have cr: "create_bip21_uri e a (Some n) (Some msg) [] = Inr u2"
      using ad pos mne
      by (simp add: create_bip21_uri_def bind_exc_def urlunparse_def join_with_def
            BITCOIN_BIP21_URI_SCHEME_def u2_def q2_def f_def)
    show ?thesis by (simp only: e2 r2 cr)
  qed
  show ?thesis using part1 part2 by blast
qed

theorem bip21_round_trip_witness:
  "parse_bip21_URI example_env ''bitcoin:addr1?amount=1.5''
     = Inr [(''amount'', PyInt 150000000), (''address'', PyStr ''addr1'')]
   \<and> create_bip21_uri example_env ''addr1'' (Some 150000000) (Some ''Hello World'') []
     = Inr ''bitcoin:addr1?amount=1.5&message=Hello%20World''
   \<and> parse_bip21_URI example_env ''bitcoin:addr1?amount=1.5&message=Hello%20World''
     = Inr [(''amount'', PyInt 150000000), (''message'', PyStr ''Hello World''),
            (''address'', PyStr ''addr1''), (''memo'', PyStr ''Hello World'')]"
proof -
  have f: "format_satoshis_plain 150000000 = ''1.5''" by code_simp
  have q: "quote ''Hello World'' = ''Hello%20World''" by code_simp
  have ad: "is_address example_env ''addr1''" by (simp add: example_env_def)
  have ne: "''addr1'' \<noteq> []" by simp
  have al: "list_all is_alnum ''addr1''"
    by (simp add: is_alnum_def is_alpha_def is_lower_def is_upper_def is_digit_def)
  have n0: "(0::int) \<le> 150000000" by simp
  have cap: "150000000 \<le> TOTAL_COIN_SUPPLY_LIMIT_IN_BTC * COIN"
    by (simp add: TOTAL_COIN_SUPPLY_LIMIT_IN_BTC_def COIN_def)
  show ?thesis
    using bip21_round_trip [OF ad ne al n0 cap, of "''Hello World''"] by (simp add: f q)
qed

text \<open>
  Beyond these bounds the round trip fails. An amount above the supply cap is rendered
  but refused by the decoder; an amount of 0 is left out of the URI by
  \<^verbatim>\<open>create_bip21_uri\<close>, so that no amount is decoded; an empty message is left out too.
\<close>

theorem bip21_round_trip_counterexample:
  "is_address example_env ''addr1''
   \<and> create_bip21_uri example_env ''addr1'' (Some 2100000000000001) (Some ''x'') []
     = Inr ''bitcoin:addr1?amount=21000000.00000001&message=x''
   \<and> parse_bip21_URI example_env ''bitcoin:addr1?amount=21000000.00000001&message=x''
     = Inl (InvalidBitcoinURI ''failed to parse 'amount' field: {}''
             (ReprExc (InvalidBitcoinURI ''amount is out-of-bounds: {} BTC''
                (ReprDecimal (Dec False 210000000000000100000000 (- 8))))))
   \<and> format_satoshis_plain 2100000000000001 = ''21000000.00000001''
   \<and> parse_bip21_URI example_env ''bitcoin:addr1?amount=21000000.00000001''
     = Inl (InvalidBitcoinURI ''failed to parse 'amount' field: {}''
             (ReprExc (InvalidBitcoinURI ''amount is out-of-bounds: {} BTC''
                (ReprDecimal (Dec False 210000000000000100000000 (- 8))))))
   \<and> create_bip21_uri example_env ''addr1'' (Some 0) (Some ''x'') []
     = Inr ''bitcoin:addr1?message=x''
   \<and> parse_bip21_URI example_env ''bitcoin:addr1?message=x''
     = Inr [(''message'', PyStr ''x''), (''address'', PyStr ''addr1''), (''memo'', PyStr ''x'')]
   \<and> create_bip21_uri example_env ''addr1'' (Some 150000000) (Some []) []
     = Inr ''bitcoin:addr1?amount=1.5''"
  by code_simp

end
